theory Spec2Isabelle
  imports Main
begin

section \<open>Connection entitlements: data model\<close>

text \<open>
  The contact-unlock entitlement logic lives in three client components:
  \<^verbatim>\<open>ProviderCard.tsx\<close> and \<^verbatim>\<open>ProviderDetailsClient.tsx\<close> (live read of the
  entitlement, review trigger on expiry, free unlock, connect click), the
  \<^verbatim>\<open>ConnectionAccessDialog\<close> (tier selection and hosted checkout) and the thank-you page
  (payment verification followed by the paid grant).

  A JavaScript \<^verbatim>\<open>Date\<close> and a Firestore \<^verbatim>\<open>Timestamp\<close> built by \<^verbatim>\<open>Timestamp.now()\<close> or
  \<^verbatim>\<open>Timestamp.fromDate\<close> both carry a whole number of milliseconds since the epoch, and
  \<^verbatim>\<open>toDate()\<close> gives that number back; both are modelled as \<open>int\<close> milliseconds.
  A field that is \<^verbatim>\<open>null\<close> or missing is \<open>None\<close>.
\<close>

type_synonym millis = int

text \<open>
  The constructor of \<^verbatim>\<open>Timestamp\<close>, which \<^verbatim>\<open>Timestamp.now()\<close> and \<^verbatim>\<open>Timestamp.fromDate\<close> end
  in, throws unless the seconds lie between year 1 and year 9999
  (\<^verbatim>\<open>-62135596800 <= seconds < 253402300800\<close>); \<open>None\<close> is the throw. An invalid
  \<^verbatim>\<open>Date\<close> (beyond 8.64e15 ms) lies outside that range as well and is not told apart.
\<close>

definition timestampInRange :: "millis \<Rightarrow> bool" where
  "timestampInRange ms = (- 62135596800000 \<le> ms \<and> ms < 253402300800000)"

definition timestampFromMillis :: "millis \<Rightarrow> millis option" where
  "timestampFromMillis ms = (if timestampInRange ms then Some ms else None)"

record UserProviderConnection =
  userId :: string
  providerId :: string
  accessType :: "string option"
  grantedAt :: millis
  expiresAt :: "millis option"
  paymentId :: "string option"
  reviewRequested :: "bool option"

text \<open>
  The fields of a \<^verbatim>\<open>bookings\<close> document that the entitlement logic reads or that tell a
  review placeholder from another booking. The placeholder's display fields (customer
  name, address, amounts) are constants or copies of the user's profile and are left out.
\<close>

record FirestoreBooking =
  bookingId :: string
  bookingUserId :: string
  bookingProviderId :: string
  serviceId :: string
  bookingStatus :: string
  isReviewedByCustomer :: "bool option"
  createdAt :: millis

text \<open>
  The two collections. \<^verbatim>\<open>userProviderConnections\<close> is keyed by the document id
  \<^verbatim>\<open>`${uid}_${providerId}`\<close>; \<^verbatim>\<open>bookings\<close> gets documents with generated ids through
  \<^verbatim>\<open>addDoc\<close> and is a list in insertion order.
\<close>

record database =
  connections :: "string \<rightharpoonup> UserProviderConnection"
  bookings :: "FirestoreBooking list"

definition connectionDocId :: "string \<Rightarrow> string \<Rightarrow> string" where
  "connectionDocId uid pid = uid @ ''_'' @ pid"

section \<open>Reading an entitlement\<close>

text \<open>
  \<^verbatim>\<open>const isExpired = connectionData.expiresAt
       ? connectionData.expiresAt.toDate() < new Date() : false;\<close>
\<close>

definition isExpired :: "UserProviderConnection \<Rightarrow> millis \<Rightarrow> bool" where
  "isExpired connectionData now =
     (case expiresAt connectionData of None \<Rightarrow> False | Some e \<Rightarrow> e < now)"

text \<open>
  The three branches of the snapshot callback: the document does not exist; it exists
  and is not expired (\<^verbatim>\<open>setConnection(connectionData)\<close>); it exists and is expired
  (\<^verbatim>\<open>setConnection(null)\<close>, then the review trigger).
\<close>

datatype accessState =
  NoAccess
  | ActiveAccess UserProviderConnection
  | Expired UserProviderConnection

definition evaluate :: "UserProviderConnection option \<Rightarrow> millis \<Rightarrow> accessState" where
  "evaluate docSnap now =
     (case docSnap of
        None \<Rightarrow> NoAccess
      | Some connectionData \<Rightarrow>
          if \<not> isExpired connectionData now then ActiveAccess connectionData
          else Expired connectionData)"

text \<open>The value the callback stores in the \<^verbatim>\<open>connection\<close> state: contact details are shown
  exactly when it is not \<^verbatim>\<open>null\<close>.\<close>

definition shownConnection :: "accessState \<Rightarrow> UserProviderConnection option" where
  "shownConnection st = (case st of ActiveAccess c \<Rightarrow> Some c | _ \<Rightarrow> None)"

text \<open>
  The other readers of the same records. \<^verbatim>\<open>ExpiryCountdown.calculateTimeLeft\<close>:
  \<^verbatim>\<open>difference = +new Date(expiryDate) - +new Date()\<close>, expired unless \<^verbatim>\<open>difference > 0\<close>.
  \<^verbatim>\<open>MyContactsPage\<close> keeps \<^verbatim>\<open>!conn.expiresAt || conn.expiresAt.toDate() > now\<close>.
  The admin connections page shows "Access Expired" for
  \<^verbatim>\<open>conn.accessType !== 'lifetime' && conn.expiresAt && conn.expiresAt.toDate() <= new Date()\<close>
  once \<^verbatim>\<open>conn.expiresAt && conn.expiresAt.toDate() > new Date()\<close> has failed.
\<close>

definition countdownExpired :: "millis \<Rightarrow> millis \<Rightarrow> bool" where
  "countdownExpired expiryDate now = (let difference = expiryDate - now in \<not> difference > 0)"

definition myContactsKeeps :: "UserProviderConnection \<Rightarrow> millis \<Rightarrow> bool" where
  "myContactsKeeps conn now = (case expiresAt conn of None \<Rightarrow> True | Some e \<Rightarrow> e > now)"

definition adminShowsExpired :: "UserProviderConnection \<Rightarrow> millis \<Rightarrow> bool" where
  "adminShowsExpired conn now =
     (case expiresAt conn of
        None \<Rightarrow> False
      | Some e \<Rightarrow> \<not> e > now \<and> accessType conn \<noteq> Some ''lifetime'' \<and> e \<le> now)"

section \<open>Review trigger on expiry\<close>

text \<open>
  Every Firestore call of the trigger can reject; whether it does is an input.
  \<^verbatim>\<open>updateDoc\<close> also rejects when the document does not exist.
\<close>

record storeFaults =
  getDocsFails :: bool
  addDocFails :: bool
  updateDocFails :: bool

datatype consoleEntry = ConsoleLog string | ConsoleError string

text \<open>
  \<^verbatim>\<open>query(collection(db, "bookings"), where("userId", "==", user.uid),
        where("isReviewedByCustomer", "==", false), limit(1))\<close>:
  an equality filter matches only documents that have the field with that value.
\<close>

definition isPendingReview :: "string \<Rightarrow> FirestoreBooking \<Rightarrow> bool" where
  "isPendingReview uid b = (bookingUserId b = uid \<and> isReviewedByCustomer b = Some False)"

definition pendingReviewQuery :: "FirestoreBooking list \<Rightarrow> string \<Rightarrow> FirestoreBooking list" where
  "pendingReviewQuery bs uid = take 1 (filter (isPendingReview uid) bs)"

text \<open>\<^verbatim>\<open>bookingId: `REVIEW-${provider.id.substring(0, 5)}-${user.uid.substring(0, 5)}`\<close>,
  \<^verbatim>\<open>services: [{ serviceId: 'provider_review', ... }]\<close>, \<^verbatim>\<open>status: 'Completed'\<close>,
  \<^verbatim>\<open>isReviewedByCustomer: false\<close>, \<^verbatim>\<open>createdAt: Timestamp.now()\<close>.\<close>

definition reviewBooking :: "string \<Rightarrow> string \<Rightarrow> millis \<Rightarrow> FirestoreBooking" where
  "reviewBooking uid pid tsNow =
     \<lparr>bookingId = ''REVIEW-'' @ take 5 pid @ ''-'' @ take 5 uid,
      bookingUserId = uid,
      bookingProviderId = pid,
      serviceId = ''provider_review'',
      bookingStatus = ''Completed'',
      isReviewedByCustomer = Some False,
      createdAt = tsNow\<rparr>"

text \<open>
  The \<^verbatim>\<open>try { ... } catch (error) { console.error(...) }\<close> block of the callback is
  asynchronous: it stops at \<^verbatim>\<open>await getDocs\<close>, at \<^verbatim>\<open>await addDoc\<close> and at
  \<^verbatim>\<open>await updateDoc\<close>, and other callbacks run in between. A started trigger is a task
  that waits at one of the three calls or has returned; the placeholder is built, with
  \<^verbatim>\<open>Timestamp.now()\<close>, when the query has answered and is fixed from then on.
\<close>

datatype triggerPhase =
  AwaitGetDocs
  | AwaitAddDoc FirestoreBooking
  | AwaitUpdateDoc
  | Returned

record triggerTask =
  taskUser :: string
  taskProvider :: string
  taskFaults :: storeFaults
  taskTsNow :: millis
  taskPhase :: triggerPhase

text \<open>
  One resumption: the awaited call takes effect on the store as it is at that moment,
  and the task runs on to its next \<^verbatim>\<open>await\<close> or to its end. A rejection, or a throwing
  \<^verbatim>\<open>Timestamp.now()\<close>, jumps to the \<^verbatim>\<open>catch\<close>
  (\<^verbatim>\<open>console.error("Error creating provider review request:", error)\<close>, the error object
  left out), keeping what was already written. The success line is
  \<^verbatim>\<open>`Review request created for expired connection with provider ${provider.id}`\<close>.
\<close>

definition resumeTrigger ::
  "triggerTask \<Rightarrow> database \<Rightarrow> triggerTask \<times> database \<times> consoleEntry list" where
  "resumeTrigger t db =
     (case taskPhase t of
        AwaitGetDocs \<Rightarrow>
          if getDocsFails (taskFaults t)
          then (t\<lparr>taskPhase := Returned\<rparr>, db,
                [ConsoleError ''Error creating provider review request:''])
          else if pendingReviewQuery (bookings db) (taskUser t) = [] then
            (case timestampFromMillis (taskTsNow t) of
               None \<Rightarrow> (t\<lparr>taskPhase := Returned\<rparr>, db,
                         [ConsoleError ''Error creating provider review request:''])
             | Some ts \<Rightarrow>
                 (t\<lparr>taskPhase := AwaitAddDoc (reviewBooking (taskUser t) (taskProvider t) ts)\<rparr>,
                  db, []))
          else (t\<lparr>taskPhase := Returned\<rparr>, db,
                [ConsoleLog ''Skipping review request creation; another one is already pending.''])
      | AwaitAddDoc b \<Rightarrow>
          if addDocFails (taskFaults t)
          then (t\<lparr>taskPhase := Returned\<rparr>, db,
                [ConsoleError ''Error creating provider review request:''])
          else (t\<lparr>taskPhase := AwaitUpdateDoc\<rparr>, db\<lparr>bookings := bookings db @ [b]\<rparr>, [])
      | AwaitUpdateDoc \<Rightarrow>
          (let k = connectionDocId (taskUser t) (taskProvider t)
           in case (if updateDocFails (taskFaults t) then None else connections db k) of
                None \<Rightarrow> (t\<lparr>taskPhase := Returned\<rparr>, db,
                          [ConsoleError ''Error creating provider review request:''])
              | Some c \<Rightarrow>
                  (t\<lparr>taskPhase := Returned\<rparr>,
                   db\<lparr>connections := (connections db)(k \<mapsto> c\<lparr>reviewRequested := Some True\<rparr>)\<rparr>,
                   [ConsoleLog (''Review request created for expired connection with provider ''
                                @ taskProvider t)]))
      | Returned \<Rightarrow> (t, db, []))"

text \<open>The trigger of a callback that nothing interrupts: its three resumptions in a row.\<close>

definition reviewTrigger ::
  "storeFaults \<Rightarrow> string \<Rightarrow> string \<Rightarrow> millis \<Rightarrow> database \<Rightarrow> database \<times> consoleEntry list" where
  "reviewTrigger f uid pid tsNow db =
     (let t0 = \<lparr>taskUser = uid, taskProvider = pid, taskFaults = f, taskTsNow = tsNow,
                taskPhase = AwaitGetDocs\<rparr>;
          (t1, db1, out1) = resumeTrigger t0 db;
          (t2, db2, out2) = resumeTrigger t1 db1;
          (t3, db3, out3) = resumeTrigger t2 db2
      in (db3, out1 @ out2 @ out3))"

record connectionView =
  connection :: "UserProviderConnection option"
  isConnectionLoading :: bool

text \<open>
  The \<^verbatim>\<open>onSnapshot\<close> callback of \<^verbatim>\<open>ProviderCard\<close> (the one of \<^verbatim>\<open>ProviderDetailsClient\<close> is
  the same text), run from its start to its end with nothing in between. \<open>now\<close> is the \<^verbatim>\<open>new Date()\<close> of the expiry test, \<open>tsNow\<close> the later
  \<^verbatim>\<open>Timestamp.now()\<close> of the placeholder. \<^verbatim>\<open>!connectionData.reviewRequested\<close> holds for a
  missing field and for \<^verbatim>\<open>false\<close>.
\<close>

definition onSnapshotCallback ::
  "storeFaults \<Rightarrow> string \<Rightarrow> string \<Rightarrow> millis \<Rightarrow> millis \<Rightarrow> database
     \<Rightarrow> database \<times> connectionView \<times> consoleEntry list" where
  "onSnapshotCallback f uid pid now tsNow db =
     (let st = evaluate (connections db (connectionDocId uid pid)) now;
          view = \<lparr>connection = shownConnection st, isConnectionLoading = False\<rparr>
      in case st of
           Expired connectionData \<Rightarrow>
             (if reviewRequested connectionData \<noteq> Some True
              then (let (db', out) = reviewTrigger f uid pid tsNow db in (db', view, out))
              else (db, view, []))
         | _ \<Rightarrow> (db, view, []))"

text \<open>
  The effect around it: \<^verbatim>\<open>if (!user?.uid || !provider.id) { setIsConnectionLoading(false);
  return; }\<close> leaves the initial \<^verbatim>\<open>connection = null\<close> and subscribes to nothing.
\<close>

definition observeConnection ::
  "storeFaults \<Rightarrow> string option \<Rightarrow> string \<Rightarrow> millis \<Rightarrow> millis \<Rightarrow> database
     \<Rightarrow> database \<times> connectionView \<times> consoleEntry list" where
  "observeConnection f user pid now tsNow db =
     (case user of
        None \<Rightarrow> (db, \<lparr>connection = None, isConnectionLoading = False\<rparr>, [])
      | Some uid \<Rightarrow>
          if uid = [] \<or> pid = [] then (db, \<lparr>connection = None, isConnectionLoading = False\<rparr>, [])
          else onSnapshotCallback f uid pid now tsNow db)"

text \<open>
  The part of the callback before its first \<^verbatim>\<open>await\<close>: it reads the snapshot and, for an
  expired record whose \<open>reviewRequested\<close> is not true, leaves a trigger waiting for the
  query.
\<close>

definition snapshotTask ::
  "storeFaults \<Rightarrow> string \<Rightarrow> string \<Rightarrow> millis \<Rightarrow> millis \<Rightarrow> database \<Rightarrow> triggerTask" where
  "snapshotTask f uid pid now tsNow db =
     \<lparr>taskUser = uid, taskProvider = pid, taskFaults = f, taskTsNow = tsNow,
      taskPhase =
        (case evaluate (connections db (connectionDocId uid pid)) now of
           Expired connectionData \<Rightarrow>
             if reviewRequested connectionData \<noteq> Some True then AwaitGetDocs else Returned
         | _ \<Rightarrow> Returned)\<rparr>"

text \<open>
  Several callbacks in flight, as on a category page with one \<^verbatim>\<open>ProviderCard\<close> per
  provider: the event loop resumes one waiting task at a time, in some order. A schedule
  lists whose turn it is.
\<close>

definition resumeAt :: "nat \<Rightarrow> triggerTask list \<times> database \<Rightarrow> triggerTask list \<times> database" where
  "resumeAt i st =
     (case st of (ts, db) \<Rightarrow>
        if i < length ts
        then (case resumeTrigger (ts ! i) db of (t', db', out) \<Rightarrow> (ts[i := t'], db'))
        else (ts, db))"

definition runSchedule ::
  "nat list \<Rightarrow> triggerTask list \<times> database \<Rightarrow> triggerTask list \<times> database" where
  "runSchedule sched st = fold resumeAt sched st"

text \<open>
  The review modal's submission ends with \<^verbatim>\<open>updateDoc(bookingDocRef, {
  isReviewedByCustomer: true, updatedAt: Timestamp.now() })\<close> on the booking it shows; the
  booking is addressed here by its position in the list.
\<close>

definition submitReview :: "nat \<Rightarrow> database \<Rightarrow> database" where
  "submitReview i db =
     (if i < length (bookings db)
      then db\<lparr>bookings := (bookings db)[i := (bookings db ! i)\<lparr>isReviewedByCustomer := Some True\<rparr>]\<rparr>
      else db)"

definition pendingCount :: "database \<Rightarrow> string \<Rightarrow> nat" where
  "pendingCount db uid = length (filter (isPendingReview uid) (bookings db))"

section \<open>Granting an entitlement\<close>

subsection \<open>Configuration, effects of a handler\<close>

text \<open>
  An entry of \<^verbatim>\<open>appConfig.connectionAccessOptions\<close>. The admin form accepts any number or
  nothing for \<^verbatim>\<open>durationDays\<close>; whole numbers are modelled. \<^verbatim>\<open>label\<close> and \<^verbatim>\<open>price\<close> only
  reach the checkout and the display.
\<close>

record ConnectionAccessOption =
  optionId :: string
  durationDays :: "int option"
  enabled :: bool

record appConfig =
  connectionAccessOptions :: "ConnectionAccessOption list option"
  isFreeAccessFallbackEnabled :: bool
  freeAccessDurationMinutes :: "int option"
  enableOnlinePayment :: bool
  razorpayKeyId :: "string option"

type_synonym localStorage = "string \<rightharpoonup> string"

datatype nav = RouterPush string | AuthRedirect string

text \<open>
  What a handler leaves behind: the store, the browser's \<^verbatim>\<open>localStorage\<close>, every
  \<^verbatim>\<open>setDoc\<close> on \<^verbatim>\<open>userProviderConnections\<close> that went through (document id and data),
  the navigations (\<^verbatim>\<open>router.push\<close>, \<^verbatim>\<open>triggerAuthRedirect\<close>), the titles of the toasts,
  whether the tier dialog was opened, and whether the thank-you page reaches its final
  \<^verbatim>\<open>if (paymentVerified)\<close> with the flag set and goes on to show the provider.
\<close>

record effects =
  store :: database
  storage :: localStorage
  entitlementWrites :: "(string \<times> UserProviderConnection) list"
  navigation :: "nav list"
  toasts :: "string list"
  modalOpened :: bool
  paymentVerified :: bool

definition noEffects :: "localStorage \<Rightarrow> database \<Rightarrow> effects" where
  "noEffects ls db =
     \<lparr>store = db, storage = ls, entitlementWrites = [], navigation = [], toasts = [],
      modalOpened = False, paymentVerified = False\<rparr>"

text \<open>\<^verbatim>\<open>setDoc(doc(db, "userProviderConnections", id), data)\<close> without merge options replaces
  the whole document.\<close>

definition setDoc :: "string \<Rightarrow> UserProviderConnection \<Rightarrow> database \<Rightarrow> database" where
  "setDoc k connectionData db = db\<lparr>connections := (connections db)(k \<mapsto> connectionData)\<rparr>"

subsection \<open>Dates\<close>

text \<open>
  \<^verbatim>\<open>d.setDate(d.getDate() + n)\<close> and \<^verbatim>\<open>d.setMinutes(d.getMinutes() + n)\<close> work on the
  fields of the local time. By the language's rules the local time of an instant \<open>t\<close> is
  \<open>t\<close> plus the zone's offset in force at \<open>t\<close>; the day or the minute field is raised by
  \<open>n\<close>, which moves the local time by \<open>n\<close> days of 86400000 ms or \<open>n\<close> minutes of
  60000 ms; and the result is turned back into an instant with the offset the zone
  assigns to that local time. The browser's time zone is an input: its offset at an
  instant and its offset at a local time.
\<close>

record timeZone =
  utcOffset :: "millis \<Rightarrow> int"
  localOffset :: "millis \<Rightarrow> int"

definition msPerDay :: int where "msPerDay = 86400000"
definition msPerMinute :: int where "msPerMinute = 60000"

definition localTime :: "timeZone \<Rightarrow> millis \<Rightarrow> millis" where
  "localTime z t = t + utcOffset z t"

definition utcOfLocal :: "timeZone \<Rightarrow> millis \<Rightarrow> millis" where
  "utcOfLocal z lt = lt - localOffset z lt"

definition addDays :: "timeZone \<Rightarrow> millis \<Rightarrow> int \<Rightarrow> millis" where
  "addDays z d n = utcOfLocal z (localTime z d + n * msPerDay)"

definition addMinutes :: "timeZone \<Rightarrow> millis \<Rightarrow> int \<Rightarrow> millis" where
  "addMinutes z d n = utcOfLocal z (localTime z d + n * msPerMinute)"

text \<open>The offset the zone assigns to the local time \<open>delta\<close> ms after that of \<open>t\<close> is the
  one in force at \<open>t\<close>: no change of offset, such as daylight saving, falls in between.\<close>

definition offsetUnchanged :: "timeZone \<Rightarrow> millis \<Rightarrow> int \<Rightarrow> bool" where
  "offsetUnchanged z t delta = (localOffset z (localTime z t + delta) = utcOffset z t)"

subsection \<open>Free unlock and the connect click\<close>

text \<open>
  \<^verbatim>\<open>handleFreeAccessUnlock\<close>: \<^verbatim>\<open>if (!user || !providerForUnlock.id) return;\<close>,
  \<^verbatim>\<open>expiryMinutes = appConfig?.freeAccessDurationMinutes || 30\<close>, \<open>tDate\<close> is the
  \<^verbatim>\<open>new Date()\<close> the expiry is computed from and \<open>tNow\<close> the \<^verbatim>\<open>Timestamp.now()\<close> stored
  as \<^verbatim>\<open>grantedAt\<close>. A throwing \<^verbatim>\<open>Timestamp\<close> (no record, \<open>None\<close>) or a rejected \<^verbatim>\<open>setDoc\<close>
  ends in the \<^verbatim>\<open>catch\<close> with an error toast.
\<close>

definition freeConnectionData ::
  "timeZone \<Rightarrow> appConfig \<Rightarrow> string \<Rightarrow> string \<Rightarrow> millis \<Rightarrow> millis
     \<Rightarrow> UserProviderConnection option" where
  "freeConnectionData z cfg uid pid tDate tNow =
     (let expiryMinutes = (case freeAccessDurationMinutes cfg of
                             None \<Rightarrow> 30 | Some m \<Rightarrow> if m = 0 then 30 else m);
          expiresAtDate = addMinutes z tDate expiryMinutes
      in case timestampFromMillis tNow of
           None \<Rightarrow> None
         | Some granted \<Rightarrow>
             (case timestampFromMillis expiresAtDate of
                None \<Rightarrow> None
              | Some expires \<Rightarrow>
                  Some \<lparr>userId = uid, providerId = pid, accessType = Some ''free'',
                        grantedAt = granted, expiresAt = Some expires, paymentId = None,
                        reviewRequested = None\<rparr>))"

definition handleFreeAccessUnlock ::
  "timeZone \<Rightarrow> appConfig \<Rightarrow> string option \<Rightarrow> string \<Rightarrow> bool \<Rightarrow> millis \<Rightarrow> millis
     \<Rightarrow> localStorage \<Rightarrow> database \<Rightarrow> effects" where
  "handleFreeAccessUnlock z cfg user pid setDocFails tDate tNow ls db =
     (case user of
        None \<Rightarrow> noEffects ls db
      | Some uid \<Rightarrow>
          if pid = [] then noEffects ls db
          else
            (case freeConnectionData z cfg uid pid tDate tNow of
               None \<Rightarrow> (noEffects ls db)\<lparr>toasts := [''Error'']\<rparr>
             | Some connectionData \<Rightarrow>
                 let k = connectionDocId uid pid
                 in if setDocFails then (noEffects ls db)\<lparr>toasts := [''Error'']\<rparr>
                    else (noEffects ls db)
                           \<lparr>store := setDoc k connectionData db,
                            entitlementWrites := [(k, connectionData)],
                            toasts := [''Free Access Granted!''],
                            navigation := [RouterPush (''/provider/'' @ pid)]\<rparr>))"

text \<open>
  \<^verbatim>\<open>handleConnectClick\<close>: no user, redirect to sign-in with the way back; configuration
  still loading, nothing; some paid option enabled, open the tier dialog; otherwise the
  free fallback if it is enabled; otherwise a "Connection Unavailable" toast.
\<close>

definition enabledPaidOptions :: "appConfig \<Rightarrow> ConnectionAccessOption list" where
  "enabledPaidOptions cfg =
     (case connectionAccessOptions cfg of None \<Rightarrow> [] | Some opts \<Rightarrow> filter enabled opts)"

definition handleConnectClick ::
  "timeZone \<Rightarrow> appConfig \<Rightarrow> bool \<Rightarrow> string option \<Rightarrow> string \<Rightarrow> bool \<Rightarrow> millis
     \<Rightarrow> millis \<Rightarrow> localStorage \<Rightarrow> database \<Rightarrow> effects" where
  "handleConnectClick z cfg isLoadingConfig user pid setDocFails tDate tNow ls db =
     (case user of
        None \<Rightarrow>
          (noEffects ls db)\<lparr>navigation := [AuthRedirect (''/provider/'' @ pid @ ''?connect=true'')]\<rparr>
      | Some uid \<Rightarrow>
          if isLoadingConfig then noEffects ls db
          else if length (enabledPaidOptions cfg) > 0 then (noEffects ls db)\<lparr>modalOpened := True\<rparr>
          else if isFreeAccessFallbackEnabled cfg
               then handleFreeAccessUnlock z cfg user pid setDocFails tDate tNow ls db
          else (noEffects ls db)\<lparr>toasts := [''Connection Unavailable'']\<rparr>)"

subsection \<open>Numbers through \<^verbatim>\<open>localStorage\<close>\<close>

text \<open>
  The dialog stores \<^verbatim>\<open>durationDays.toString()\<close> and the thank-you page reads it back with
  \<^verbatim>\<open>parseInt(..., 10)\<close>: leading white space is skipped, a sign is accepted, the longest
  run of decimal digits is read, and no digit at all gives \<^verbatim>\<open>NaN\<close> (here \<open>None\<close>).
  Only the ASCII white space is modelled and numbers are exact; the strings parsed here
  come from \<^verbatim>\<open>toString\<close> of a whole number and have neither other white space nor more
  digits than a double holds.
  \<^verbatim>\<open>toString\<close> of a whole number below \<open>10\<^sup>2\<^sup>1\<close> is its decimal numeral.
\<close>

definition digitVal :: "char \<Rightarrow> nat option" where
  "digitVal c = map_of (zip ''0123456789'' [0, 1, 2, 3, 4, 5, 6, 7, 8, 9]) c"

definition digitChar :: "nat \<Rightarrow> char" where
  "digitChar d = ''0123456789'' ! d"

fun numeralOf :: "nat \<Rightarrow> string" where
  "numeralOf n = (if n < 10 then [digitChar n] else numeralOf (n div 10) @ [digitChar (n mod 10)])"

definition numberToString :: "int \<Rightarrow> string" where
  "numberToString n = (if n < 0 then CHR ''-'' # numeralOf (nat (- n)) else numeralOf (nat n))"

definition isWhiteSpace :: "char \<Rightarrow> bool" where
  "isWhiteSpace c = (c \<in> set [CHR '' '', CHR 0x09, CHR 0x0A, CHR 0x0B, CHR 0x0C, CHR 0x0D])"

fun parseDigits :: "string \<Rightarrow> nat option \<Rightarrow> nat option" where
  "parseDigits [] acc = acc"
| "parseDigits (c # cs) acc =
     (case digitVal c of
        None \<Rightarrow> acc
      | Some d \<Rightarrow> parseDigits cs (Some (10 * (case acc of None \<Rightarrow> 0 | Some a \<Rightarrow> a) + d)))"

definition parseInt :: "string \<Rightarrow> int option" where
  "parseInt s =
     (case dropWhile isWhiteSpace s of
        [] \<Rightarrow> None
      | c # r \<Rightarrow>
          if c = CHR ''-'' then map_option (\<lambda>n. - int n) (parseDigits r None)
          else if c = CHR ''+'' then map_option int (parseDigits r None)
          else map_option int (parseDigits (c # r) None))"

text \<open>A value read from \<^verbatim>\<open>localStorage\<close> is used when it is neither \<^verbatim>\<open>null\<close> nor empty.\<close>

definition truthy :: "string option \<Rightarrow> bool" where
  "truthy v = (v \<noteq> None \<and> v \<noteq> Some [])"

subsection \<open>Tier dialog and checkout\<close>

datatype checkoutResult =
  PaymentCompleted string string string
  | PaymentFailed
  | PaymentDismissed

text \<open>
  The checkout's success \<^verbatim>\<open>handler\<close>. \<^verbatim>\<open>durationDays = selectedOption.durationDays ||
  (selectedOption.id === 'oneTime' ? 1 : (selectedOption.id === 'lifetime' ? 9999 : 0))\<close>.
  The keys \<^verbatim>\<open>connectionProviderName\<close> and \<^verbatim>\<open>connectionAmountPaid\<close>, which nothing reads
  back, are left out.
\<close>

definition storedDurationDays :: "ConnectionAccessOption \<Rightarrow> int" where
  "storedDurationDays selectedOption =
     (case durationDays selectedOption of
        Some d \<Rightarrow> if d \<noteq> 0 then d
                  else if optionId selectedOption = ''oneTime'' then 1
                  else if optionId selectedOption = ''lifetime'' then 9999 else 0
      | None \<Rightarrow> if optionId selectedOption = ''oneTime'' then 1
                else if optionId selectedOption = ''lifetime'' then 9999 else 0)"

definition paymentHandler ::
  "ConnectionAccessOption \<Rightarrow> string \<Rightarrow> string \<Rightarrow> string \<Rightarrow> string \<Rightarrow> localStorage
     \<Rightarrow> localStorage" where
  "paymentHandler selectedOption pid payId ordId sig ls =
     ls(''razorpayPaymentId'' \<mapsto> payId,
        ''razorpayOrderId'' \<mapsto> ordId,
        ''razorpaySignature'' \<mapsto> sig,
        ''fixbroPaymentMethod'' \<mapsto> ''Online'',
        ''isProcessingConnectionUnlock'' \<mapsto> ''true'',
        ''connectionProviderId'' \<mapsto> pid,
        ''connectionAccessType'' \<mapsto> optionId selectedOption,
        ''connectionDurationDays'' \<mapsto> numberToString (storedDurationDays selectedOption))"

text \<open>
  \<^verbatim>\<open>handleProceedToPayment\<close>. Loading the checkout script, creating the order and the
  checkout itself are outside the repository; their results are inputs. Only a completed
  payment runs the \<^verbatim>\<open>handler\<close>; \<^verbatim>\<open>payment.failed\<close> shows a toast and \<^verbatim>\<open>ondismiss\<close> only
  resets the spinner.
\<close>

definition handleProceedToPayment ::
  "string option \<Rightarrow> string option \<Rightarrow> string \<Rightarrow> ConnectionAccessOption list \<Rightarrow> appConfig
     \<Rightarrow> bool \<Rightarrow> bool \<Rightarrow> checkoutResult \<Rightarrow> localStorage \<Rightarrow> database \<Rightarrow> effects" where
  "handleProceedToPayment selectedOptionId user pid opts cfg scriptLoaded orderCreated checkout ls db =
     (if \<not> truthy selectedOptionId then (noEffects ls db)\<lparr>toasts := [''Please select an option.'']\<rparr>
      else case user of
        None \<Rightarrow> (noEffects ls db)\<lparr>toasts := [''Error'']\<rparr>
      | Some uid \<Rightarrow>
         (case find (\<lambda>opt. Some (optionId opt) = selectedOptionId) opts of
            None \<Rightarrow> (noEffects ls db)\<lparr>toasts := [''Error'']\<rparr>
          | Some selectedOption \<Rightarrow>
              if \<not> enableOnlinePayment cfg \<or> \<not> truthy (razorpayKeyId cfg)
              then (noEffects ls db)\<lparr>toasts := [''Online Payments Disabled'']\<rparr>
              else if \<not> scriptLoaded then (noEffects ls db)\<lparr>toasts := [''Error'']\<rparr>
              else if \<not> orderCreated then (noEffects ls db)\<lparr>toasts := [''Payment Error'']\<rparr>
              else (case checkout of
                      PaymentCompleted payId ordId sig \<Rightarrow>
                        (noEffects ls db)
                          \<lparr>storage := paymentHandler selectedOption pid payId ordId sig ls,
                           navigation :=
                             [RouterPush (''/checkout/thank-you?status=connection-unlocked&providerId='' @ pid)]\<rparr>
                    | PaymentFailed \<Rightarrow> (noEffects ls db)\<lparr>toasts := [''Payment Failed'']\<rparr>
                    | PaymentDismissed \<Rightarrow> noEffects ls db)))"

subsection \<open>Thank-you page: verification, then the paid grant\<close>

text \<open>
  The answer of \<^verbatim>\<open>/api/razorpay/verify-payment\<close> (an endpoint outside \<^verbatim>\<open>src/\<close>): the
  \<^verbatim>\<open>fetch\<close> or its \<^verbatim>\<open>json()\<close> rejects, or a body with \<^verbatim>\<open>success\<close> and \<^verbatim>\<open>status\<close> comes back.
\<close>

record verificationResult =
  success :: bool
  status :: "string option"

datatype fetchOutcome = FetchThrows | FetchJson verificationResult

text \<open>
  What the page takes from its surroundings: the signed-in user's uid if any, the
  verification answer, whether the \<^verbatim>\<open>setDoc\<close> of the grant and the later \<^verbatim>\<open>getDoc\<close> of the
  provider reject, the browser's time zone, the \<^verbatim>\<open>new Date()\<close> the expiry is computed
  from and the later \<^verbatim>\<open>Timestamp.now()\<close> stored as \<^verbatim>\<open>grantedAt\<close>.
\<close>

record thankYouEnv =
  currentUser :: "string option"
  verification :: fetchOutcome
  grantWriteFails :: bool
  providerReadFails :: bool
  zone :: timeZone
  dateNow :: millis
  timestampNow :: millis

definition isConnectionFlow :: "string option \<Rightarrow> string option \<Rightarrow> bool" where
  "isConnectionFlow statusParam providerIdParam =
     (statusParam = Some ''connection-unlocked'' \<and> truthy providerIdParam)"

text \<open>
  \<^verbatim>\<open>accessType = localStorage.getItem('connectionAccessType')\<close>,
  \<^verbatim>\<open>durationDays = parseInt(localStorage.getItem('connectionDurationDays') || '0', 10)\<close>,
  \<^verbatim>\<open>if (accessType !== 'lifetime') { finalDuration = durationDays > 0 ? durationDays : 1;
  expiryDate.setDate(expiryDate.getDate() + finalDuration); expiresAt =
  Timestamp.fromDate(expiryDate); }\<close>; \<^verbatim>\<open>NaN > 0\<close> is false. The record is built with
  \<^verbatim>\<open>grantedAt: Timestamp.now()\<close>; a throwing \<^verbatim>\<open>Timestamp\<close> leaves no record (\<open>None\<close>).
\<close>

definition paidConnectionData ::
  "string \<Rightarrow> string \<Rightarrow> localStorage \<Rightarrow> timeZone \<Rightarrow> millis \<Rightarrow> millis
     \<Rightarrow> UserProviderConnection option" where
  "paidConnectionData uid pid ls z expiryDate tsNow =
     (let accType = ls ''connectionAccessType'';
          durDays = parseInt (if truthy (ls ''connectionDurationDays'')
                              then (case ls ''connectionDurationDays'' of Some v \<Rightarrow> v | None \<Rightarrow> ''0'')
                              else ''0'');
          expAt = (if accType \<noteq> Some ''lifetime''
                   then (let finalDuration = (case durDays of
                                                Some d \<Rightarrow> if d > 0 then d else 1
                                              | None \<Rightarrow> 1)
                         in map_option Some (timestampFromMillis (addDays z expiryDate finalDuration)))
                   else Some None)
      in case expAt of
           None \<Rightarrow> None
         | Some expires \<Rightarrow>
             (case timestampFromMillis tsNow of
                None \<Rightarrow> None
              | Some granted \<Rightarrow>
                  Some \<lparr>userId = uid, providerId = pid, accessType = accType,
                        grantedAt = granted, expiresAt = expires,
                        paymentId = ls ''razorpayPaymentId'', reviewRequested = None\<rparr>))"

text \<open>\<^verbatim>\<open>clearLocalStorageItems(userId, true)\<close> removes these keys.\<close>

definition clearedKeys :: "string list" where
  "clearedKeys =
     [''isProcessingConnectionUnlock'', ''connectionProviderId'', ''connectionAccessType'',
      ''connectionDurationDays'', ''connectionAmountPaid'', ''fixbroScheduledDate'',
      ''fixbroScheduledTimeSlot'', ''fixbroCustomerAddress'', ''razorpayPaymentId'',
      ''razorpayOrderId'', ''razorpaySignature'', ''fixbroAppliedPromoCode'',
      ''fixbroBookingDiscountCode'', ''fixbroBookingDiscountAmount'',
      ''fixbroAppliedPromoCodeId'', ''fixbroAppliedPlatformFees'',
      ''isProcessingCancellationFee'', ''bookingIdForCancellationFee'',
      ''cancellationFeeAmount'', ''fixbroPaymentMethod'', ''fixbroFinalBookingTotal'']"

definition clearLocalStorageItems :: "localStorage \<Rightarrow> localStorage" where
  "clearLocalStorageItems ls = (\<lambda>k. if k \<in> set clearedKeys then None else ls k)"

text \<open>The \<^verbatim>\<open>catch\<close> of the verification block: a "Payment Error" toast and back to the
  provider page; what was written before the rejection stays.\<close>

definition paymentErrorCatch :: "string \<Rightarrow> effects \<Rightarrow> effects" where
  "paymentErrorCatch pid e =
     e\<lparr>toasts := toasts e @ [''Payment Error''],
       navigation := navigation e @ [RouterPush (''/provider/'' @ pid)]\<rparr>"

text \<open>
  The \<^verbatim>\<open>if (isConnectionFlow) { ... }\<close> block of \<^verbatim>\<open>processPage\<close>, for the provider id of the
  URL. On a reload (\<^verbatim>\<open>isProcessingConnectionUnlock\<close> no longer \<^verbatim>\<open>'true'\<close>) the page assumes
  the payment verified and only shows the provider. The rest of \<^verbatim>\<open>processPage\<close> (bookings,
  cancellation fees) has no write to \<^verbatim>\<open>userProviderConnections\<close>.
\<close>

definition connectionUnlockFlow ::
  "thankYouEnv \<Rightarrow> string \<Rightarrow> localStorage \<Rightarrow> database \<Rightarrow> effects" where
  "connectionUnlockFlow env pid ls db =
     (let isFirstTimeProcessing = (ls ''isProcessingConnectionUnlock'' = Some ''true'')
      in if \<not> isFirstTimeProcessing then (noEffects ls db)\<lparr>paymentVerified := True\<rparr>
         else if \<not> truthy (ls ''razorpayPaymentId'') \<or> \<not> truthy (ls ''razorpayOrderId'')
                 \<or> \<not> truthy (ls ''razorpaySignature'')
         then (noEffects ls db)
                \<lparr>toasts := [''Verification Failed''],
                 navigation := [RouterPush (''/provider/'' @ pid)]\<rparr>
         else (case verification env of
                 FetchThrows \<Rightarrow> paymentErrorCatch pid (noEffects ls db)
               | FetchJson verificationResult \<Rightarrow>
                   if \<not> success verificationResult \<or> status verificationResult \<noteq> Some ''captured''
                   then paymentErrorCatch pid (noEffects ls db)
                   else
                     let e0 = (noEffects ls db)\<lparr>toasts := [''Payment Verified'']\<rparr>
                     in (case currentUser env of
                           None \<Rightarrow>
                             e0\<lparr>storage := clearLocalStorageItems ls, paymentVerified := True\<rparr>
                         | Some uid \<Rightarrow>
                             (case paidConnectionData uid pid ls (zone env) (dateNow env)
                                     (timestampNow env) of
                                None \<Rightarrow> paymentErrorCatch pid e0
                              | Some connectionData \<Rightarrow>
                                  if grantWriteFails env then paymentErrorCatch pid e0
                                  else
                                    let k = connectionDocId uid pid;
                                        e1 = e0\<lparr>store := setDoc k connectionData db,
                                                entitlementWrites := [(k, connectionData)]\<rparr>
                                    in if providerReadFails env then paymentErrorCatch pid e1
                                       else e1\<lparr>storage := clearLocalStorageItems ls,
                                               paymentVerified := True\<rparr>))))"

section \<open>Example data\<close>

definition noFaults :: storeFaults where
  "noFaults = \<lparr>getDocsFails = False, addDocFails = False, updateDocFails = False\<rparr>"

definition guardWriteFails :: storeFaults where
  "guardWriteFails = \<lparr>getDocsFails = False, addDocFails = False, updateDocFails = True\<rparr>"

text \<open>A seven-day grant made at time \<open>t\<close>, and a record without \<^verbatim>\<open>expiresAt\<close> whose tier is
  not the lifetime one.\<close>

definition sevenDayConnection :: "millis \<Rightarrow> UserProviderConnection" where
  "sevenDayConnection t =
     \<lparr>userId = ''u1'', providerId = ''p1'', accessType = Some ''sevenDays'', grantedAt = t,
      expiresAt = Some (t + 604800000), paymentId = Some ''pay_1'', reviewRequested = None\<rparr>"

definition freeNoExpiry :: UserProviderConnection where
  "freeNoExpiry =
     \<lparr>userId = ''u1'', providerId = ''p1'', accessType = Some ''free'', grantedAt = 0,
      expiresAt = None, paymentId = None, reviewRequested = None\<rparr>"

definition dbWith :: "UserProviderConnection \<Rightarrow> FirestoreBooking list \<Rightarrow> database" where
  "dbWith c bs = \<lparr>connections = [connectionDocId (userId c) (providerId c) \<mapsto> c], bookings = bs\<rparr>"

text \<open>One user with two expired entitlements, for providers \<open>p1\<close> and \<open>p2\<close>, no booking
  yet, and the two snapshot callbacks of a page that shows both providers.\<close>

definition twoExpired :: database where
  "twoExpired =
     \<lparr>connections =
        [connectionDocId ''u1'' ''p1'' \<mapsto> sevenDayConnection 0,
         connectionDocId ''u1'' ''p2'' \<mapsto> (sevenDayConnection 1000)\<lparr>providerId := ''p2''\<rparr>],
      bookings = []\<rparr>"

definition twoTasks :: "triggerTask list" where
  "twoTasks =
     [snapshotTask noFaults ''u1'' ''p1'' 700000000 700000001 twoExpired,
      snapshotTask noFaults ''u1'' ''p2'' 700000000 700000002 twoExpired]"

text \<open>Two time zones: Asia/Kolkata, five and a half hours ahead of UTC all year, and
  America/New_York around 10 March 2024, when its offset went from -5 h to -4 h at
  07:00 UTC (local times from 03:00 on have the new offset).\<close>

definition kolkata :: timeZone where
  "kolkata = \<lparr>utcOffset = (\<lambda>t. 19800000), localOffset = (\<lambda>t. 19800000)\<rparr>"

definition newYork :: timeZone where
  "newYork =
     \<lparr>utcOffset = (\<lambda>t. if t < 1710054000000 then - 18000000 else - 14400000),
      localOffset = (\<lambda>t. if t < 1710039600000 then - 18000000 else - 14400000)\<rparr>"

text \<open>A verified payment of the seven-day tier by user \<open>u1\<close> for provider \<open>p1\<close>: the
  clock reads 1000 when the expiry is computed and 1001 when \<open>grantedAt\<close> is taken.\<close>

definition emptyDb :: database where
  "emptyDb = \<lparr>connections = Map.empty, bookings = []\<rparr>"

definition captured :: verificationResult where
  "captured = \<lparr>success = True, status = Some ''captured''\<rparr>"

definition paidEnv :: thankYouEnv where
  "paidEnv = \<lparr>currentUser = Some ''u1'', verification = FetchJson captured,
              grantWriteFails = False, providerReadFails = False, zone = kolkata,
              dateNow = 1000, timestampNow = 1001\<rparr>"

definition sevenDaysOption :: ConnectionAccessOption where
  "sevenDaysOption = \<lparr>optionId = ''sevenDays'', durationDays = Some 7, enabled = True\<rparr>"

definition afterCheckout :: localStorage where
  "afterCheckout = paymentHandler sevenDaysOption ''p1'' ''pay_1'' ''order_1'' ''sig_1'' Map.empty"

definition freeOnlyConfig :: appConfig where
  "freeOnlyConfig =
     \<lparr>connectionAccessOptions = Some [sevenDaysOption\<lparr>enabled := False\<rparr>],
      isFreeAccessFallbackEnabled = True, freeAccessDurationMinutes = Some 30,
      enableOnlinePayment = True, razorpayKeyId = Some ''rzp_key''\<rparr>"

definition sevenDayGrant :: UserProviderConnection where
  "sevenDayGrant =
     \<lparr>userId = ''u1'', providerId = ''p1'', accessType = Some ''sevenDays'', grantedAt = 1001,
      expiresAt = Some 604801000, paymentId = Some ''pay_1'', reviewRequested = None\<rparr>"

definition expiredReviewed :: database where
  "expiredReviewed = dbWith ((sevenDayConnection 0)\<lparr>reviewRequested := Some True\<rparr>) []"

definition lifetimeOption :: ConnectionAccessOption where
  "lifetimeOption = \<lparr>optionId = ''lifetime'', durationDays = None, enabled = True\<rparr>"

definition freeGrant :: UserProviderConnection where
  "freeGrant =
     \<lparr>userId = ''u1'', providerId = ''p1'', accessType = Some ''free'', grantedAt = 1001,
      expiresAt = Some 1801000, paymentId = None, reviewRequested = None\<rparr>"

definition signedOutEnv :: thankYouEnv where
  "signedOutEnv = paidEnv\<lparr>currentUser := None\<rparr>"

section \<open>Properties of the evaluator\<close>

lemma isExpired_iff: "isExpired c now \<longleftrightarrow> (\<exists>e. expiresAt c = Some e \<and> e < now)"
  by (simp add: isExpired_def split: option.splits)

lemma evaluate_absent: "evaluate None now = NoAccess"
  by (simp add: evaluate_def)

lemma evaluate_later:
  "expiresAt c = Some e \<Longrightarrow> now < e \<Longrightarrow> evaluate (Some c) now = ActiveAccess c"
  by (simp add: evaluate_def isExpired_def)

lemma evaluate_earlier:
  "expiresAt c = Some e \<Longrightarrow> e < now \<Longrightarrow> evaluate (Some c) now = Expired c"
  by (simp add: evaluate_def isExpired_def)

text \<open>
  C1. The evaluator is a case analysis of the record and the time of the read: no record
  gives no access, \<open>expiresAt > now\<close> gives access, and \<open>expiresAt \<le> now\<close>, the instant
  \<open>expiresAt = now\<close> included, is to give \<open>Expired\<close>. The snapshot callback tests
  \<^verbatim>\<open>expiresAt.toDate() < new Date()\<close>: read at the very millisecond of its expiry, a
  seven-day grant still counts as active and the contact details are shown, while the
  countdown, the "my contacts" list and the admin page all treat the same record at the
  same instant as expired.
\<close>

theorem boundary_reads_as_active:
  "evaluate (Some (sevenDayConnection 0)) 604800000 = ActiveAccess (sevenDayConnection 0)
   \<and> shownConnection (evaluate (Some (sevenDayConnection 0)) 604800000)
       = Some (sevenDayConnection 0)
   \<and> onSnapshotCallback noFaults ''u1'' ''p1'' 604800000 604800000 (dbWith (sevenDayConnection 0) [])
       = (dbWith (sevenDayConnection 0) [],
          \<lparr>connection = Some (sevenDayConnection 0), isConnectionLoading = False\<rparr>, [])
   \<and> countdownExpired 604800000 604800000
   \<and> \<not> myContactsKeeps (sevenDayConnection 0) 604800000
   \<and> adminShowsExpired (sevenDayConnection 0) 604800000"
  by (simp add: onSnapshotCallback_def evaluate_def isExpired_def shownConnection_def
      countdownExpired_def myContactsKeeps_def adminShowsExpired_def sevenDayConnection_def
      dbWith_def connectionDocId_def)

text \<open>
  C10. A stored record whose \<open>expiresAt\<close> is null reads as currently valid access at
  every time, whatever its \<open>accessType\<close>: the callback shows the record, writes nothing
  and never reaches the review trigger.
\<close>

theorem null_expiry_reads_as_active:
  assumes "connections db (connectionDocId uid pid) = Some c" and "expiresAt c = None"
  shows "evaluate (Some c) now = ActiveAccess c
         \<and> onSnapshotCallback f uid pid now tsNow db
             = (db, \<lparr>connection = Some c, isConnectionLoading = False\<rparr>, [])"
  using assms by (simp add: onSnapshotCallback_def evaluate_def isExpired_def shownConnection_def)

theorem null_expiry_reads_as_active_witness:
  "connections (dbWith freeNoExpiry []) (connectionDocId ''u1'' ''p1'') = Some freeNoExpiry
   \<and> expiresAt freeNoExpiry = None
   \<and> accessType freeNoExpiry \<noteq> Some ''lifetime''
   \<and> evaluate (Some freeNoExpiry) 1000000000000 = ActiveAccess freeNoExpiry
   \<and> onSnapshotCallback noFaults ''u1'' ''p1'' 1000000000000 1000000000001 (dbWith freeNoExpiry [])
       = (dbWith freeNoExpiry [], \<lparr>connection = Some freeNoExpiry, isConnectionLoading = False\<rparr>, [])"
proof -
  have h1: "connections (dbWith freeNoExpiry []) (connectionDocId ''u1'' ''p1'') = Some freeNoExpiry"
    by (simp add: dbWith_def freeNoExpiry_def)
  have h2: "expiresAt freeNoExpiry = None" by (simp add: freeNoExpiry_def)
  have h3: "accessType freeNoExpiry \<noteq> Some ''lifetime''" by (simp add: freeNoExpiry_def)
  show ?thesis
    using h1 h2 h3 null_expiry_reads_as_active [OF h1 h2, of 1000000000000 noFaults 1000000000001]
    by simp
qed

section \<open>Properties of the review trigger\<close>

lemma reviewTrigger_unfold:
  "reviewTrigger f uid pid tsNow db =
     (if getDocsFails f then (db, [ConsoleError ''Error creating provider review request:''])
      else if pendingReviewQuery (bookings db) uid = [] then
        (if \<not> timestampInRange tsNow \<or> addDocFails f
         then (db, [ConsoleError ''Error creating provider review request:''])
         else
           (case (if updateDocFails f then None else connections db (connectionDocId uid pid)) of
              None \<Rightarrow> (db\<lparr>bookings := bookings db @ [reviewBooking uid pid tsNow]\<rparr>,
                        [ConsoleError ''Error creating provider review request:''])
            | Some c \<Rightarrow>
                (\<lparr>connections = (connections db)(connectionDocId uid pid \<mapsto> c\<lparr>reviewRequested := Some True\<rparr>),
                  bookings = bookings db @ [reviewBooking uid pid tsNow]\<rparr>,
                 [ConsoleLog (''Review request created for expired connection with provider '' @ pid)])))
      else (db, [ConsoleLog ''Skipping review request creation; another one is already pending.'']))"
  by (simp add: reviewTrigger_def resumeTrigger_def timestampFromMillis_def Let_def
      split: option.splits)

lemma pendingReviewQuery_empty:
  "pendingReviewQuery bs uid = []
   \<longleftrightarrow> (\<forall>b \<in> set bs. \<not> (bookingUserId b = uid \<and> isReviewedByCustomer b = Some False))"
  by (cases "filter (isPendingReview uid) bs")
     (auto simp: pendingReviewQuery_def isPendingReview_def filter_empty_conv filter_eq_Cons_iff)

lemma pendingCount_zero:
  "pendingCount db uid = 0
   \<longleftrightarrow> (\<forall>b \<in> set (bookings db). \<not> (bookingUserId b = uid \<and> isReviewedByCustomer b = Some False))"
  by (auto simp: pendingCount_def isPendingReview_def filter_empty_conv)

lemma isExpired_mono: "isExpired c now \<Longrightarrow> now \<le> now' \<Longrightarrow> isExpired c now'"
  by (auto simp: isExpired_def split: option.splits)

lemma callback_expired:
  assumes "connections db (connectionDocId uid pid) = Some c" and "isExpired c now"
    and "reviewRequested c \<noteq> Some True"
  shows "onSnapshotCallback f uid pid now tsNow db
         = (fst (reviewTrigger f uid pid tsNow db),
            \<lparr>connection = None, isConnectionLoading = False\<rparr>,
            snd (reviewTrigger f uid pid tsNow db))"
  using assms
  by (simp add: onSnapshotCallback_def evaluate_def shownConnection_def split: prod.splits)

lemma reviewTrigger_pending:
  "pendingCount (fst (reviewTrigger f uid pid t db)) uid \<le> max 1 (pendingCount db uid)"
proof (cases "pendingReviewQuery (bookings db) uid = []")
  case True
  then have "pendingCount db uid = 0" by (simp add: pendingReviewQuery_empty pendingCount_zero)
  then show ?thesis using True
    by (auto simp: reviewTrigger_unfold pendingCount_def isPendingReview_def reviewBooking_def
        split: option.splits)
next
  case False
  then show ?thesis by (simp add: reviewTrigger_unfold)
qed

lemma callback_pending:
  "pendingCount (fst (onSnapshotCallback f uid pid now t db)) uid \<le> max 1 (pendingCount db uid)"
proof -
  have "fst (onSnapshotCallback f uid pid now t db) = db
        \<or> fst (onSnapshotCallback f uid pid now t db) = fst (reviewTrigger f uid pid t db)"
    by (auto simp: onSnapshotCallback_def Let_def split: accessState.splits prod.splits)
  then show ?thesis using reviewTrigger_pending [of f uid pid t db] by auto
qed

lemma reviewTrigger_skip:
  "\<exists>b \<in> set (bookings db). bookingUserId b = uid \<and> isReviewedByCustomer b = Some False
   \<Longrightarrow> \<not> getDocsFails f
   \<Longrightarrow> reviewTrigger f uid pid t db
       = (db, [ConsoleLog ''Skipping review request creation; another one is already pending.''])"
proof -
  assume "\<exists>b \<in> set (bookings db). bookingUserId b = uid \<and> isReviewedByCustomer b = Some False"
    and g: "\<not> getDocsFails f"
  then have "pendingReviewQuery (bookings db) uid \<noteq> []"
    unfolding pendingReviewQuery_empty by blast
  then show ?thesis using g by (simp add: reviewTrigger_unfold)
qed

text \<open>
  C4. An expired entitlement whose \<open>reviewRequested\<close> is not true is observed by a callback
  that runs undisturbed. If no booking of the user has \<open>isReviewedByCustomer = false\<close>, the
  three store calls go through and \<^verbatim>\<open>Timestamp.now()\<close> is a valid timestamp, a placeholder
  with this user's and this provider's id and \<open>isReviewedByCustomer = false\<close> is appended
  and then \<open>reviewRequested\<close> is set to true on the entitlement. If a booking of the user is
  pending, nothing is written, \<open>reviewRequested\<close> stays as it was, and the same happens at
  every later observation that finds the store so.
\<close>

theorem review_trigger_on_expiry:
  assumes "connections db (connectionDocId uid pid) = Some c"
    and "isExpired c now" and "reviewRequested c \<noteq> Some True"
  shows "((\<forall>b \<in> set (bookings db). \<not> (bookingUserId b = uid \<and> isReviewedByCustomer b = Some False))
          \<and> \<not> getDocsFails f \<and> \<not> addDocFails f \<and> \<not> updateDocFails f
          \<and> timestampInRange tsNow \<longrightarrow>
            onSnapshotCallback f uid pid now tsNow db
            = (\<lparr>connections =
                  (connections db)(connectionDocId uid pid \<mapsto> c\<lparr>reviewRequested := Some True\<rparr>),
                bookings =
                  bookings db @
                  [\<lparr>bookingId = ''REVIEW-'' @ take 5 pid @ ''-'' @ take 5 uid,
                    bookingUserId = uid, bookingProviderId = pid,
                    serviceId = ''provider_review'', bookingStatus = ''Completed'',
                    isReviewedByCustomer = Some False, createdAt = tsNow\<rparr>]\<rparr>,
               \<lparr>connection = None, isConnectionLoading = False\<rparr>,
               [ConsoleLog (''Review request created for expired connection with provider '' @ pid)]))
       \<and> ((\<exists>b \<in> set (bookings db). bookingUserId b = uid \<and> isReviewedByCustomer b = Some False)
          \<and> \<not> getDocsFails f \<and> now \<le> now' \<longrightarrow>
            onSnapshotCallback f uid pid now' tsNow db
            = (db, \<lparr>connection = None, isConnectionLoading = False\<rparr>,
               [ConsoleLog ''Skipping review request creation; another one is already pending.'']))"
proof (intro conjI impI)
  assume a: "(\<forall>b \<in> set (bookings db). \<not> (bookingUserId b = uid \<and> isReviewedByCustomer b = Some False))
          \<and> \<not> getDocsFails f \<and> \<not> addDocFails f \<and> \<not> updateDocFails f
          \<and> timestampInRange tsNow"
  then have q: "pendingReviewQuery (bookings db) uid = []"
    unfolding pendingReviewQuery_empty by blast
  show "onSnapshotCallback f uid pid now tsNow db
            = (\<lparr>connections =
                  (connections db)(connectionDocId uid pid \<mapsto> c\<lparr>reviewRequested := Some True\<rparr>),
                bookings =
                  bookings db @
                  [\<lparr>bookingId = ''REVIEW-'' @ take 5 pid @ ''-'' @ take 5 uid,
                    bookingUserId = uid, bookingProviderId = pid,
                    serviceId = ''provider_review'', bookingStatus = ''Completed'',
                    isReviewedByCustomer = Some False, createdAt = tsNow\<rparr>]\<rparr>,
               \<lparr>connection = None, isConnectionLoading = False\<rparr>,
               [ConsoleLog (''Review request created for expired connection with provider '' @ pid)])"
    using assms a q by (simp add: callback_expired reviewTrigger_unfold reviewBooking_def)
next
  assume a: "(\<exists>b \<in> set (bookings db). bookingUserId b = uid \<and> isReviewedByCustomer b = Some False)
          \<and> \<not> getDocsFails f \<and> now \<le> now'"
  then have e: "isExpired c now'" using assms(2) isExpired_mono by blast
  have "reviewTrigger f uid pid tsNow db
        = (db, [ConsoleLog ''Skipping review request creation; another one is already pending.''])"
    using a by (intro reviewTrigger_skip) auto
  then show "onSnapshotCallback f uid pid now' tsNow db
            = (db, \<lparr>connection = None, isConnectionLoading = False\<rparr>,
               [ConsoleLog ''Skipping review request creation; another one is already pending.''])"
    using callback_expired [OF assms(1) e assms(3), of f tsNow] by simp
qed

theorem review_trigger_on_expiry_witness:
  "connections (dbWith (sevenDayConnection 0) []) (connectionDocId ''u1'' ''p1'')
     = Some (sevenDayConnection 0)
   \<and> isExpired (sevenDayConnection 0) 700000000
   \<and> reviewRequested (sevenDayConnection 0) \<noteq> Some True
   \<and> timestampInRange 700000001
   \<and> onSnapshotCallback noFaults ''u1'' ''p1'' 700000000 700000001 (dbWith (sevenDayConnection 0) [])
       = (dbWith ((sevenDayConnection 0)\<lparr>reviewRequested := Some True\<rparr>)
            [\<lparr>bookingId = ''REVIEW-p1-u1'', bookingUserId = ''u1'', bookingProviderId = ''p1'',
              serviceId = ''provider_review'', bookingStatus = ''Completed'',
              isReviewedByCustomer = Some False, createdAt = 700000001\<rparr>],
          \<lparr>connection = None, isConnectionLoading = False\<rparr>,
          [ConsoleLog ''Review request created for expired connection with provider p1''])
   \<and> connections (dbWith (sevenDayConnection 0) [reviewBooking ''u1'' ''p0'' 5])
        (connectionDocId ''u1'' ''p1'') = Some (sevenDayConnection 0)
   \<and> bookingUserId (reviewBooking ''u1'' ''p0'' 5) = ''u1''
   \<and> isReviewedByCustomer (reviewBooking ''u1'' ''p0'' 5) = Some False
   \<and> onSnapshotCallback noFaults ''u1'' ''p1'' 800000000 800000001
        (dbWith (sevenDayConnection 0) [reviewBooking ''u1'' ''p0'' 5])
       = (dbWith (sevenDayConnection 0) [reviewBooking ''u1'' ''p0'' 5],
          \<lparr>connection = None, isConnectionLoading = False\<rparr>,
          [ConsoleLog ''Skipping review request creation; another one is already pending.''])"
proof -
  let ?c = "sevenDayConnection 0"
  let ?d1 = "dbWith ?c []"
  let ?d2 = "dbWith ?c [reviewBooking ''u1'' ''p0'' 5]"
  have c1: "connections ?d1 (connectionDocId ''u1'' ''p1'') = Some ?c"
    and c2: "connections ?d2 (connectionDocId ''u1'' ''p1'') = Some ?c"
    by (simp_all add: dbWith_def sevenDayConnection_def)
  have e: "isExpired ?c 700000000" by (simp add: isExpired_def sevenDayConnection_def)
  have g: "reviewRequested ?c \<noteq> Some True" by (simp add: sevenDayConnection_def)
  have r: "timestampInRange 700000001" by (simp add: timestampInRange_def)
  have p1: "\<forall>b \<in> set (bookings ?d1). \<not> (bookingUserId b = ''u1'' \<and> isReviewedByCustomer b = Some False)"
    by (simp add: dbWith_def)
  have b2: "bookingUserId (reviewBooking ''u1'' ''p0'' 5) = ''u1''"
    "isReviewedByCustomer (reviewBooking ''u1'' ''p0'' 5) = Some False"
    by (simp_all add: reviewBooking_def)
  have p2: "\<exists>b \<in> set (bookings ?d2). bookingUserId b = ''u1'' \<and> isReviewedByCustomer b = Some False"
    using b2 by (simp add: dbWith_def)
  have nf: "\<not> getDocsFails noFaults \<and> \<not> addDocFails noFaults \<and> \<not> updateDocFails noFaults"
    by (simp add: noFaults_def)
  have r1: "onSnapshotCallback noFaults ''u1'' ''p1'' 700000000 700000001 ?d1
       = (\<lparr>connections =
             (connections ?d1)(connectionDocId ''u1'' ''p1'' \<mapsto> ?c\<lparr>reviewRequested := Some True\<rparr>),
            bookings =
              bookings ?d1 @
              [\<lparr>bookingId = ''REVIEW-'' @ take 5 ''p1'' @ ''-'' @ take 5 ''u1'',
                bookingUserId = ''u1'', bookingProviderId = ''p1'',
                serviceId = ''provider_review'', bookingStatus = ''Completed'',
                isReviewedByCustomer = Some False, createdAt = 700000001\<rparr>]\<rparr>,
          \<lparr>connection = None, isConnectionLoading = False\<rparr>,
          [ConsoleLog (''Review request created for expired connection with provider '' @ ''p1'')])"
    using review_trigger_on_expiry [OF c1 e g, where f = noFaults and tsNow = 700000001] p1 nf r
    by blast
  have r2: "onSnapshotCallback noFaults ''u1'' ''p1'' 800000000 800000001 ?d2
       = (?d2, \<lparr>connection = None, isConnectionLoading = False\<rparr>,
          [ConsoleLog ''Skipping review request creation; another one is already pending.''])"
    using review_trigger_on_expiry [OF c2 e g, where f = noFaults and tsNow = 800000001
        and now' = 800000000] p2 nf
    by simp
  have eq: "\<lparr>connections =
             (connections ?d1)(connectionDocId ''u1'' ''p1'' \<mapsto> ?c\<lparr>reviewRequested := Some True\<rparr>),
            bookings =
              bookings ?d1 @
              [\<lparr>bookingId = ''REVIEW-'' @ take 5 ''p1'' @ ''-'' @ take 5 ''u1'',
                bookingUserId = ''u1'', bookingProviderId = ''p1'',
                serviceId = ''provider_review'', bookingStatus = ''Completed'',
                isReviewedByCustomer = Some False, createdAt = 700000001\<rparr>]\<rparr>
          = dbWith (?c\<lparr>reviewRequested := Some True\<rparr>)
              [\<lparr>bookingId = ''REVIEW-p1-u1'', bookingUserId = ''u1'', bookingProviderId = ''p1'',
                serviceId = ''provider_review'', bookingStatus = ''Completed'',
                isReviewedByCustomer = Some False, createdAt = 700000001\<rparr>]"
    by (simp add: dbWith_def sevenDayConnection_def)
  show ?thesis using c1 c2 e g r b2 r1 r2 eq by simp
qed

text \<open>
  C6 as stated fails: when \<^verbatim>\<open>addDoc\<close> goes through and the following \<^verbatim>\<open>updateDoc\<close> rejects,
  the placeholder is in \<^verbatim>\<open>bookings\<close> and the entitlement still has no \<open>reviewRequested\<close>.
\<close>

theorem placeholder_without_guard_flip:
  "bookings (fst (onSnapshotCallback guardWriteFails ''u1'' ''p1'' 700000000 700000001
                    (dbWith (sevenDayConnection 0) [])))
     = [reviewBooking ''u1'' ''p1'' 700000001]
   \<and> connections (fst (onSnapshotCallback guardWriteFails ''u1'' ''p1'' 700000000 700000001
                         (dbWith (sevenDayConnection 0) [])))
        (connectionDocId ''u1'' ''p1'')
     = Some (sevenDayConnection 0)
   \<and> reviewRequested (sevenDayConnection 0) = None"
  by (simp add: onSnapshotCallback_def evaluate_def isExpired_def shownConnection_def
      reviewTrigger_unfold pendingReviewQuery_def guardWriteFails_def dbWith_def
      sevenDayConnection_def connectionDocId_def timestampInRange_def)

text \<open>
  C6, amended. A failing call of the review-trigger step never leaves the snapshot
  callback: it is logged and the expired state is rendered (\<open>connection\<close> null, loading
  ended). When the query or the placeholder write fails, or the placeholder cannot be
  built, nothing is written. When the guard write fails after the placeholder write, the
  placeholder stays with \<open>reviewRequested\<close> not flipped; a later observation of that store,
  in which the placeholder is still pending, writes nothing more.
\<close>

theorem review_trigger_failures:
  assumes "connections db (connectionDocId uid pid) = Some c"
    and "isExpired c now" and "reviewRequested c \<noteq> Some True"
  shows "fst (snd (onSnapshotCallback f uid pid now tsNow db))
           = \<lparr>connection = None, isConnectionLoading = False\<rparr>
       \<and> (getDocsFails f
            \<or> (\<forall>b \<in> set (bookings db). \<not> (bookingUserId b = uid \<and> isReviewedByCustomer b = Some False))
               \<and> (addDocFails f \<or> \<not> timestampInRange tsNow) \<longrightarrow>
            onSnapshotCallback f uid pid now tsNow db
              = (db, \<lparr>connection = None, isConnectionLoading = False\<rparr>,
                 [ConsoleError ''Error creating provider review request:'']))
       \<and> (\<not> getDocsFails f
            \<and> (\<forall>b \<in> set (bookings db). \<not> (bookingUserId b = uid \<and> isReviewedByCustomer b = Some False))
            \<and> timestampInRange tsNow \<and> \<not> addDocFails f \<and> updateDocFails f \<longrightarrow>
            onSnapshotCallback f uid pid now tsNow db
              = (\<lparr>connections = connections db,
                  bookings =
                    bookings db @
                    [\<lparr>bookingId = ''REVIEW-'' @ take 5 pid @ ''-'' @ take 5 uid,
                      bookingUserId = uid, bookingProviderId = pid,
                      serviceId = ''provider_review'', bookingStatus = ''Completed'',
                      isReviewedByCustomer = Some False, createdAt = tsNow\<rparr>]\<rparr>,
                 \<lparr>connection = None, isConnectionLoading = False\<rparr>,
                 [ConsoleError ''Error creating provider review request:''])
            \<and> (\<forall>f' now' tsNow'. \<not> getDocsFails f' \<and> now \<le> now' \<longrightarrow>
                  onSnapshotCallback f' uid pid now' tsNow'
                    \<lparr>connections = connections db,
                      bookings =
                        bookings db @
                        [\<lparr>bookingId = ''REVIEW-'' @ take 5 pid @ ''-'' @ take 5 uid,
                          bookingUserId = uid, bookingProviderId = pid,
                          serviceId = ''provider_review'', bookingStatus = ''Completed'',
                          isReviewedByCustomer = Some False, createdAt = tsNow\<rparr>]\<rparr>
                  = (\<lparr>connections = connections db,
                      bookings =
                        bookings db @
                        [\<lparr>bookingId = ''REVIEW-'' @ take 5 pid @ ''-'' @ take 5 uid,
                          bookingUserId = uid, bookingProviderId = pid,
                          serviceId = ''provider_review'', bookingStatus = ''Completed'',
                          isReviewedByCustomer = Some False, createdAt = tsNow\<rparr>]\<rparr>,
                     \<lparr>connection = None, isConnectionLoading = False\<rparr>,
                     [ConsoleLog ''Skipping review request creation; another one is already pending.''])))"
proof -
  let ?view = "\<lparr>connection = None, isConnectionLoading = False\<rparr>"
  let ?err = "[ConsoleError ''Error creating provider review request:'']"
  let ?b = "\<lparr>bookingId = ''REVIEW-'' @ take 5 pid @ ''-'' @ take 5 uid,
                      bookingUserId = uid, bookingProviderId = pid,
                      serviceId = ''provider_review'', bookingStatus = ''Completed'',
                      isReviewedByCustomer = Some False, createdAt = tsNow\<rparr>"
  let ?db1 = "\<lparr>connections = connections db, bookings = bookings db @ [?b]\<rparr>"
  let ?nopending = "\<forall>b \<in> set (bookings db). \<not> (bookingUserId b = uid \<and> isReviewedByCustomer b = Some False)"
  have cb: "\<And>g. onSnapshotCallback g uid pid now tsNow db
         = (fst (reviewTrigger g uid pid tsNow db), ?view, snd (reviewTrigger g uid pid tsNow db))"
    using assms by (rule callback_expired)
  have A: "fst (snd (onSnapshotCallback f uid pid now tsNow db)) = ?view"
    by (simp add: cb)
  have B: "getDocsFails f \<or> ?nopending \<and> (addDocFails f \<or> \<not> timestampInRange tsNow) \<longrightarrow>
            onSnapshotCallback f uid pid now tsNow db = (db, ?view, ?err)"
    by (auto simp: cb reviewTrigger_unfold pendingReviewQuery_empty)
  have D1: "\<not> getDocsFails f \<and> ?nopending \<and> timestampInRange tsNow \<and> \<not> addDocFails f
            \<and> updateDocFails f \<longrightarrow>
            onSnapshotCallback f uid pid now tsNow db = (?db1, ?view, ?err)"
    by (auto simp: cb reviewTrigger_unfold pendingReviewQuery_empty reviewBooking_def)
  have c1: "connections ?db1 (connectionDocId uid pid) = Some c" using assms(1) by simp
  have pc: "\<exists>b \<in> set (bookings ?db1). bookingUserId b = uid \<and> isReviewedByCustomer b = Some False"
    by simp
  have D2: "\<forall>f' now' tsNow'. \<not> getDocsFails f' \<and> now \<le> now' \<longrightarrow>
                  onSnapshotCallback f' uid pid now' tsNow' ?db1
                  = (?db1, ?view,
                     [ConsoleLog ''Skipping review request creation; another one is already pending.''])"
  proof (intro allI impI)
    fix f' :: storeFaults and now' :: millis and tsNow' :: millis
    assume h: "\<not> getDocsFails f' \<and> now \<le> now'"
    then have "isExpired c now'" using assms(2) isExpired_mono by blast
    then show "onSnapshotCallback f' uid pid now' tsNow' ?db1
               = (?db1, ?view,
                  [ConsoleLog ''Skipping review request creation; another one is already pending.''])"
      using callback_expired [OF c1 _ assms(3), of now' f' tsNow']
        reviewTrigger_skip [OF pc, of f' pid tsNow'] h
      by simp
  qed
  show ?thesis using A B D1 D2 by blast
qed

theorem review_trigger_failures_witness:
  "connections (dbWith (sevenDayConnection 0) []) (connectionDocId ''u1'' ''p1'')
     = Some (sevenDayConnection 0)
   \<and> isExpired (sevenDayConnection 0) 700000000
   \<and> reviewRequested (sevenDayConnection 0) \<noteq> Some True
   \<and> timestampInRange 700000001
   \<and> updateDocFails guardWriteFails
   \<and> onSnapshotCallback guardWriteFails ''u1'' ''p1'' 700000000 700000001
        (dbWith (sevenDayConnection 0) [])
       = (dbWith (sevenDayConnection 0)
            [\<lparr>bookingId = ''REVIEW-p1-u1'', bookingUserId = ''u1'', bookingProviderId = ''p1'',
              serviceId = ''provider_review'', bookingStatus = ''Completed'',
              isReviewedByCustomer = Some False, createdAt = 700000001\<rparr>],
          \<lparr>connection = None, isConnectionLoading = False\<rparr>,
          [ConsoleError ''Error creating provider review request:''])
   \<and> onSnapshotCallback noFaults ''u1'' ''p1'' 700000900 700000901
        (dbWith (sevenDayConnection 0)
            [\<lparr>bookingId = ''REVIEW-p1-u1'', bookingUserId = ''u1'', bookingProviderId = ''p1'',
              serviceId = ''provider_review'', bookingStatus = ''Completed'',
              isReviewedByCustomer = Some False, createdAt = 700000001\<rparr>])
       = (dbWith (sevenDayConnection 0)
            [\<lparr>bookingId = ''REVIEW-p1-u1'', bookingUserId = ''u1'', bookingProviderId = ''p1'',
              serviceId = ''provider_review'', bookingStatus = ''Completed'',
              isReviewedByCustomer = Some False, createdAt = 700000001\<rparr>],
          \<lparr>connection = None, isConnectionLoading = False\<rparr>,
          [ConsoleLog ''Skipping review request creation; another one is already pending.''])"
proof -
  let ?c = "sevenDayConnection 0"
  let ?d = "dbWith ?c []"
  let ?b = "\<lparr>bookingId = ''REVIEW-'' @ take 5 ''p1'' @ ''-'' @ take 5 ''u1'',
            bookingUserId = ''u1'', bookingProviderId = ''p1'',
            serviceId = ''provider_review'', bookingStatus = ''Completed'',
            isReviewedByCustomer = Some False, createdAt = 700000001\<rparr>"
  let ?d1 = "\<lparr>connections = connections ?d, bookings = bookings ?d @ [?b]\<rparr>"
  have c1: "connections ?d (connectionDocId ''u1'' ''p1'') = Some ?c"
    by (simp add: dbWith_def sevenDayConnection_def)
  have e: "isExpired ?c 700000000" by (simp add: isExpired_def sevenDayConnection_def)
  have g: "reviewRequested ?c \<noteq> Some True" by (simp add: sevenDayConnection_def)
  have r: "timestampInRange 700000001" by (simp add: timestampInRange_def)
  have p: "\<forall>b \<in> set (bookings ?d). \<not> (bookingUserId b = ''u1'' \<and> isReviewedByCustomer b = Some False)"
    by (simp add: dbWith_def)
  have f: "\<not> getDocsFails guardWriteFails \<and> \<not> addDocFails guardWriteFails
           \<and> updateDocFails guardWriteFails"
    by (simp add: guardWriteFails_def)
  have nf: "\<not> getDocsFails noFaults" by (simp add: noFaults_def)
  have eq: "?d1 = dbWith ?c
            [\<lparr>bookingId = ''REVIEW-p1-u1'', bookingUserId = ''u1'', bookingProviderId = ''p1'',
              serviceId = ''provider_review'', bookingStatus = ''Completed'',
              isReviewedByCustomer = Some False, createdAt = 700000001\<rparr>]"
    by (simp add: dbWith_def sevenDayConnection_def)
  note t = review_trigger_failures [OF c1 e g, where f = guardWriteFails and tsNow = 700000001]
  have r1: "onSnapshotCallback guardWriteFails ''u1'' ''p1'' 700000000 700000001 ?d
              = (?d1, \<lparr>connection = None, isConnectionLoading = False\<rparr>,
                 [ConsoleError ''Error creating provider review request:''])"
    using t p f r by blast
  have r2: "onSnapshotCallback noFaults ''u1'' ''p1'' 700000900 700000901 ?d1
              = (?d1, \<lparr>connection = None, isConnectionLoading = False\<rparr>,
                 [ConsoleLog ''Skipping review request creation; another one is already pending.''])"
    using t p f r nf by simp
  show ?thesis using c1 e g r f r1 r2 unfolding eq by simp
qed

text \<open>Once the user has reviewed that placeholder, the entitlement, still without
  \<open>reviewRequested\<close>, triggers a second placeholder at its next observation.\<close>

lemma second_placeholder_after_review:
  "bookings (fst (onSnapshotCallback noFaults ''u1'' ''p1'' 700000900 700000901
       (submitReview 0
          (fst (onSnapshotCallback guardWriteFails ''u1'' ''p1'' 700000000 700000001
                  (dbWith (sevenDayConnection 0) []))))))
   = [(reviewBooking ''u1'' ''p1'' 700000001)\<lparr>isReviewedByCustomer := Some True\<rparr>,
      reviewBooking ''u1'' ''p1'' 700000901]"
  by (simp add: onSnapshotCallback_def evaluate_def isExpired_def shownConnection_def
      reviewTrigger_unfold pendingReviewQuery_def isPendingReview_def guardWriteFails_def
      noFaults_def dbWith_def sevenDayConnection_def connectionDocId_def timestampInRange_def
      submitReview_def reviewBooking_def)

text \<open>A trigger resumed three times with nothing in between is the callback run from
  start to end.\<close>

lemma resumeTrigger_Returned: "taskPhase t = Returned \<Longrightarrow> resumeTrigger t db = (t, db, [])"
  by (simp add: resumeTrigger_def)

lemma uninterrupted_task_is_callback:
  "snd (runSchedule [0, 0, 0] ([snapshotTask f uid pid now tsNow db], db))
   = fst (onSnapshotCallback f uid pid now tsNow db)"
proof (cases "evaluate (connections db (connectionDocId uid pid)) now")
  case NoAccess
  then show ?thesis
    by (simp add: runSchedule_def resumeAt_def snapshotTask_def onSnapshotCallback_def
        resumeTrigger_def)
next
  case (ActiveAccess c)
  then show ?thesis
    by (simp add: runSchedule_def resumeAt_def snapshotTask_def onSnapshotCallback_def
        resumeTrigger_def)
next
  case (Expired c)
  show ?thesis
  proof (cases "reviewRequested c = Some True")
    case True
    then show ?thesis using Expired
      by (simp add: runSchedule_def resumeAt_def snapshotTask_def onSnapshotCallback_def
          resumeTrigger_def)
  next
    case False
    then have t: "snapshotTask f uid pid now tsNow db
        = \<lparr>taskUser = uid, taskProvider = pid, taskFaults = f, taskTsNow = tsNow,
           taskPhase = AwaitGetDocs\<rparr>"
      using Expired by (simp add: snapshotTask_def)
    have "fst (onSnapshotCallback f uid pid now tsNow db) = fst (reviewTrigger f uid pid tsNow db)"
      using Expired False by (simp add: onSnapshotCallback_def split: prod.splits)
    then show ?thesis
      unfolding t
      by (simp add: runSchedule_def resumeAt_def reviewTrigger_def Let_def split: prod.splits)
  qed
qed

lemma twoTasks_waiting:
  "map taskPhase twoTasks = [AwaitGetDocs, AwaitGetDocs]"
  by (simp add: twoTasks_def snapshotTask_def twoExpired_def evaluate_def isExpired_def
      sevenDayConnection_def connectionDocId_def)

text \<open>
  C5. The number of a user's pending placeholders is never to exceed 1, creation being
  gated on a fresh query that finds none. The gate and the creation are two separate
  awaited calls: on a page that shows two providers whose entitlements have both expired,
  the two callbacks are started one after the other, each query answers before either
  placeholder is written, and both placeholders are written. The user ends with two
  pending placeholders. When the first callback finishes before the second is resumed,
  one placeholder results.
\<close>

theorem interleaved_triggers_leave_two_pending:
  "bookings twoExpired = []
   \<and> bookings (snd (runSchedule [0, 1, 0, 1, 0, 1] (twoTasks, twoExpired)))
       = [\<lparr>bookingId = ''REVIEW-p1-u1'', bookingUserId = ''u1'', bookingProviderId = ''p1'',
            serviceId = ''provider_review'', bookingStatus = ''Completed'',
            isReviewedByCustomer = Some False, createdAt = 700000001\<rparr>,
          \<lparr>bookingId = ''REVIEW-p2-u1'', bookingUserId = ''u1'', bookingProviderId = ''p2'',
            serviceId = ''provider_review'', bookingStatus = ''Completed'',
            isReviewedByCustomer = Some False, createdAt = 700000002\<rparr>]
   \<and> pendingCount (snd (runSchedule [0, 1, 0, 1, 0, 1] (twoTasks, twoExpired))) ''u1'' = 2
   \<and> map taskPhase (fst (runSchedule [0, 1, 0, 1, 0, 1] (twoTasks, twoExpired)))
       = [Returned, Returned]
   \<and> pendingCount (snd (runSchedule [0, 0, 0, 1, 1, 1] (twoTasks, twoExpired))) ''u1'' = 1"
  by code_simp

section \<open>Properties of the grants\<close>

subsection \<open>A duration written by the dialog is read back unchanged\<close>

declare numeralOf.simps [simp del]

lemma digitVal_digitChar: "d < 10 \<Longrightarrow> digitVal (digitChar d) = Some d"
proof -
  assume "d < 10"
  then have "d \<in> {0, 1, 2, 3, 4, 5, 6, 7, 8, 9}" by auto
  then show ?thesis by (auto simp: digitVal_def digitChar_def)
qed

lemma digit_not_sign: "digitVal c = Some d \<Longrightarrow> \<not> isWhiteSpace c \<and> c \<noteq> CHR ''-'' \<and> c \<noteq> CHR ''+''"
  by (auto simp: digitVal_def isWhiteSpace_def split: if_splits)

lemma numeralOf_digits: "c \<in> set (numeralOf n) \<Longrightarrow> \<exists>d. digitVal c = Some d"
proof (induction n rule: numeralOf.induct)
  case (1 n)
  show ?case
  proof (cases "n < 10")
    case True
    then show ?thesis using "1.prems" digitVal_digitChar [of n] by (simp add: numeralOf.simps [of n])
  next
    case False
    then show ?thesis
      using "1.prems" "1.IH" digitVal_digitChar [of "n mod 10"]
      by (auto simp: numeralOf.simps [of n])
  qed
qed

lemma parseDigits_append:
  "(\<And>c. c \<in> set xs \<Longrightarrow> \<exists>d. digitVal c = Some d)
   \<Longrightarrow> parseDigits (xs @ ys) acc = parseDigits ys (parseDigits xs acc)"
proof (induction xs arbitrary: acc)
  case Nil
  then show ?case by simp
next
  case (Cons x xs)
  obtain d where d: "digitVal x = Some d" using Cons.prems [of x] by auto
  show ?case using d Cons.IH Cons.prems by simp
qed

lemma parseDigits_numeralOf: "parseDigits (numeralOf n) None = Some n"
proof (induction n rule: numeralOf.induct)
  case (1 n)
  show ?case
  proof (cases "n < 10")
    case True
    then show ?thesis by (simp add: numeralOf.simps [of n] digitVal_digitChar)
  next
    case False
    have "parseDigits (numeralOf (n div 10) @ [digitChar (n mod 10)]) None
          = parseDigits [digitChar (n mod 10)] (parseDigits (numeralOf (n div 10)) None)"
      by (rule parseDigits_append) (rule numeralOf_digits)
    also have "\<dots> = Some (10 * (n div 10) + n mod 10)"
      using "1.IH" False by (simp add: digitVal_digitChar)
    finally show ?thesis using False by (simp add: numeralOf.simps [of n])
  qed
qed

lemma numeralOf_Cons: "\<exists>c r d. numeralOf n = c # r \<and> digitVal c = Some d"
proof -
  have ne: "numeralOf n \<noteq> []" by (simp add: numeralOf.simps [of n])
  then obtain c r where cr: "numeralOf n = c # r" by (cases "numeralOf n") auto
  then have "c \<in> set (numeralOf n)" by simp
  then show ?thesis using numeralOf_digits cr by blast
qed

lemma parseInt_numberToString: "parseInt (numberToString n) = Some n"
proof (cases "n < 0")
  case True
  have "\<not> isWhiteSpace CHR ''-''" by (simp add: isWhiteSpace_def)
  then show ?thesis using True
    by (simp add: parseInt_def numberToString_def parseDigits_numeralOf)
next
  case False
  obtain c r d where cr: "numeralOf (nat n) = c # r" "digitVal c = Some d"
    using numeralOf_Cons by blast
  have "parseDigits (c # r) None = Some (nat n)" using parseDigits_numeralOf [of "nat n"] cr by simp
  then show ?thesis using False cr digit_not_sign [OF cr(2)]
    by (simp add: parseInt_def numberToString_def del: parseDigits.simps)
qed

subsection \<open>Dates in a zone\<close>

lemma addDays_unchanged:
  "localOffset z (d + utcOffset z d + n * 86400000) = utcOffset z d
   \<Longrightarrow> addDays z d n = d + n * 86400000"
  by (simp add: addDays_def utcOfLocal_def localTime_def msPerDay_def)


lemma kolkata_offsets: "utcOffset kolkata t = 19800000" "localOffset kolkata t = 19800000"
  by (simp_all add: kolkata_def)

text \<open>Seven calendar days from 6 March 2024, 12:00 UTC, in New York end an hour short of
  seven times 24 hours, and a duration of 3000000 days ends beyond year 9999.\<close>

lemma newYork_seven_days: "addDays newYork 1709726400000 7 = 1709726400000 + 601200000"
  by (simp add: addDays_def utcOfLocal_def localTime_def msPerDay_def newYork_def)

lemma beyond_year_9999: "timestampFromMillis (addDays kolkata 1000 3000000) = None"
  by (simp add: addDays_def utcOfLocal_def localTime_def msPerDay_def kolkata_def
      timestampFromMillis_def timestampInRange_def)

subsection \<open>What each handler writes\<close>

lemma noEffects_simps [simp]:
  "store (noEffects ls db) = db" "storage (noEffects ls db) = ls"
  "entitlementWrites (noEffects ls db) = []" "navigation (noEffects ls db) = []"
  "toasts (noEffects ls db) = []" "modalOpened (noEffects ls db) = False"
  "paymentVerified (noEffects ls db) = False"
  by (simp_all add: noEffects_def)

lemma paymentErrorCatch_simps [simp]:
  "store (paymentErrorCatch pid e) = store e"
  "storage (paymentErrorCatch pid e) = storage e"
  "entitlementWrites (paymentErrorCatch pid e) = entitlementWrites e"
  "navigation (paymentErrorCatch pid e) = navigation e @ [RouterPush (''/provider/'' @ pid)]"
  "toasts (paymentErrorCatch pid e) = toasts e @ [''Payment Error'']"
  "paymentVerified (paymentErrorCatch pid e) = paymentVerified e"
  by (simp_all add: paymentErrorCatch_def)

lemma unlock_writes:
  "entitlementWrites (connectionUnlockFlow env pid ls db) =
     (if ls ''isProcessingConnectionUnlock'' = Some ''true''
         \<and> truthy (ls ''razorpayPaymentId'') \<and> truthy (ls ''razorpayOrderId'')
         \<and> truthy (ls ''razorpaySignature'')
         \<and> (\<exists>r. verification env = FetchJson r \<and> success r \<and> status r = Some ''captured'')
         \<and> \<not> grantWriteFails env
      then (case currentUser env of
              None \<Rightarrow> []
            | Some uid \<Rightarrow>
                (case paidConnectionData uid pid ls (zone env) (dateNow env) (timestampNow env) of
                   None \<Rightarrow> []
                 | Some c \<Rightarrow> [(connectionDocId uid pid, c)]))
      else [])"
  by (auto simp: connectionUnlockFlow_def Let_def split: fetchOutcome.splits option.splits)

lemma unlock_store:
  "store (connectionUnlockFlow env pid ls db) =
     (case entitlementWrites (connectionUnlockFlow env pid ls db) of
        [] \<Rightarrow> db | (k, c) # _ \<Rightarrow> setDoc k c db)"
  by (auto simp: connectionUnlockFlow_def Let_def split: fetchOutcome.splits option.splits)

lemma free_writes:
  "entitlementWrites (handleFreeAccessUnlock z cfg user pid sf t1 t2 ls db) =
     (case user of
        None \<Rightarrow> []
      | Some uid \<Rightarrow>
          if pid \<noteq> [] \<and> \<not> sf
          then (case freeConnectionData z cfg uid pid t1 t2 of
                  None \<Rightarrow> [] | Some c \<Rightarrow> [(connectionDocId uid pid, c)])
          else [])"
  by (auto simp: handleFreeAccessUnlock_def Let_def split: option.splits)

lemma free_store:
  "store (handleFreeAccessUnlock z cfg user pid sf t1 t2 ls db) =
     (case entitlementWrites (handleFreeAccessUnlock z cfg user pid sf t1 t2 ls db) of
        [] \<Rightarrow> db | (k, c) # _ \<Rightarrow> setDoc k c db)"
  by (auto simp: handleFreeAccessUnlock_def Let_def split: option.splits)

lemma click_writes:
  "entitlementWrites (handleConnectClick z cfg loading user pid sf t1 t2 ls db) =
     (if user \<noteq> None \<and> \<not> loading \<and> enabledPaidOptions cfg = [] \<and> isFreeAccessFallbackEnabled cfg
      then entitlementWrites (handleFreeAccessUnlock z cfg user pid sf t1 t2 ls db)
      else [])"
  by (auto simp: handleConnectClick_def split: option.splits)

lemma click_store:
  "store (handleConnectClick z cfg loading user pid sf t1 t2 ls db) =
     (case entitlementWrites (handleConnectClick z cfg loading user pid sf t1 t2 ls db) of
        [] \<Rightarrow> db | (k, c) # _ \<Rightarrow> setDoc k c db)"
  by (auto simp: handleConnectClick_def free_store split: option.splits)

lemma dialog_no_write:
  "entitlementWrites (handleProceedToPayment sel user pid opts cfg sl oc co ls db) = []
   \<and> store (handleProceedToPayment sel user pid opts cfg sl oc co ls db) = db"
  by (auto simp: handleProceedToPayment_def split: option.splits checkoutResult.splits)

lemma dialog_not_completed:
  "co = PaymentFailed \<or> co = PaymentDismissed \<Longrightarrow>
   storage (handleProceedToPayment sel user pid opts cfg sl oc co ls db) = ls
   \<and> navigation (handleProceedToPayment sel user pid opts cfg sl oc co ls db) = []"
  by (auto simp: handleProceedToPayment_def split: option.splits checkoutResult.splits)

lemma numberToString_nonempty: "numberToString n \<noteq> []"
  by (simp add: numberToString_def numeralOf.simps [of "nat n"])

lemma paid_record_after_checkout:
  "paidConnectionData uid pid (paymentHandler opt pid' payId ordId sig ls) z d t =
     (case (if optionId opt \<noteq> ''lifetime''
            then map_option Some
                   (timestampFromMillis
                      (addDays z d (if storedDurationDays opt > 0 then storedDurationDays opt else 1)))
            else Some None) of
        None \<Rightarrow> None
      | Some expires \<Rightarrow>
          (case timestampFromMillis t of
             None \<Rightarrow> None
           | Some granted \<Rightarrow>
               Some \<lparr>userId = uid, providerId = pid, accessType = Some (optionId opt),
                     grantedAt = granted, expiresAt = expires, paymentId = Some payId,
                     reviewRequested = None\<rparr>))"
  by (simp add: paidConnectionData_def paymentHandler_def truthy_def numberToString_nonempty
      parseInt_numberToString Let_def split: option.splits)

lemma afterCheckout_keys:
  "afterCheckout ''isProcessingConnectionUnlock'' = Some ''true''"
  "afterCheckout ''razorpayPaymentId'' = Some ''pay_1''"
  "afterCheckout ''razorpayOrderId'' = Some ''order_1''"
  "afterCheckout ''razorpaySignature'' = Some ''sig_1''"
  by (simp_all add: afterCheckout_def paymentHandler_def)

lemma paidEnv_simps:
  "currentUser paidEnv = Some ''u1''" "verification paidEnv = FetchJson captured"
  "\<not> grantWriteFails paidEnv" "\<not> providerReadFails paidEnv"
  "dateNow paidEnv = 1000" "timestampNow paidEnv = 1001"
  "success captured" "status captured = Some ''captured''" "zone paidEnv = kolkata"
  by (simp_all add: paidEnv_def captured_def)

lemma example_paid_record:
  "paidConnectionData ''u1'' ''p1'' afterCheckout kolkata 1000 1001 = Some sevenDayGrant"
  by (simp add: afterCheckout_def paid_record_after_checkout sevenDaysOption_def
      storedDurationDays_def addDays_def utcOfLocal_def localTime_def msPerDay_def kolkata_def
      timestampFromMillis_def timestampInRange_def sevenDayGrant_def)

lemma example_paid_write:
  "entitlementWrites (connectionUnlockFlow paidEnv ''p1'' afterCheckout db) = [(''u1_p1'', sevenDayGrant)]"
  by (simp add: unlock_writes afterCheckout_keys paidEnv_simps truthy_def example_paid_record)
     (simp add: connectionDocId_def)

lemma paid_reviewRequested:
  "paidConnectionData uid pid ls z d t = Some c \<Longrightarrow> reviewRequested c = None"
  by (auto simp: paidConnectionData_def Let_def split: option.splits if_splits)

lemma free_reviewRequested:
  "freeConnectionData z cfg uid pid d t = Some c \<Longrightarrow> reviewRequested c = None"
  by (auto simp: freeConnectionData_def Let_def split: option.splits)

lemma setDoc_lookup: "connections (setDoc k c db) k = Some c"
  by (simp add: setDoc_def)

lemma example_free_write:
  "entitlementWrites (handleConnectClick kolkata freeOnlyConfig False (Some ''u1'') ''p1'' False
      1000 1001 ls db) = [(''u1_p1'', freeGrant)]"
  by (simp add: click_writes free_writes freeOnlyConfig_def enabledPaidOptions_def sevenDaysOption_def
      freeConnectionData_def connectionDocId_def addMinutes_def utcOfLocal_def localTime_def
      msPerMinute_def kolkata_def timestampFromMillis_def timestampInRange_def freeGrant_def)

subsection \<open>The claims about granting\<close>

text \<open>
  C2 as stated fails: the expiry is computed from one reading of the clock
  (\<^verbatim>\<open>new Date()\<close>) and \<open>grantedAt\<close> is a second, later reading (\<^verbatim>\<open>Timestamp.now()\<close>). With
  the readings 1000 and 1001 a seven-day grant stores \<open>expiresAt = 1000 + 7 days\<close> and
  \<open>grantedAt = 1001\<close>, so \<open>expiresAt\<close> is not \<open>grantedAt + 7 days\<close>.
\<close>

theorem expiry_differs_from_grantedAt:
  "optionId sevenDaysOption = ''sevenDays'' \<and> durationDays sevenDaysOption = Some 7
   \<and> entitlementWrites (connectionUnlockFlow paidEnv ''p1''
        (paymentHandler sevenDaysOption ''p1'' ''pay_1'' ''order_1'' ''sig_1'' Map.empty) emptyDb)
       = [(''u1_p1'', sevenDayGrant)]
   \<and> grantedAt sevenDayGrant = 1001
   \<and> expiresAt sevenDayGrant = Some 604801000
   \<and> expiresAt sevenDayGrant \<noteq> Some (grantedAt sevenDayGrant + 7 * msPerDay)"
  using example_paid_write [of emptyDb]
  by (simp add: afterCheckout_def sevenDaysOption_def sevenDayGrant_def msPerDay_def)

text \<open>
  C2, amended. A paid grant is the tier dialog's completed checkout followed by the
  thank-you page with a verified payment, a signed-in user, a valid \<^verbatim>\<open>Timestamp.now()\<close> and
  a \<^verbatim>\<open>setDoc\<close> that goes through. For the lifetime tier the stored \<open>expiresAt\<close> is null. For
  a timed tier with a positive whole \<open>durationDays\<close>, when the time zone's offset at the
  resulting local time is the one in force at the clock reading \<open>t\<close> taken for the expiry
  (no daylight-saving change in between) and \<open>t + durationDays\<close> days, of 86400000 ms
  each, is a valid timestamp (before year 10000), the stored record has \<open>expiresAt = t +
  durationDays\<close> days and \<open>grantedAt\<close> the separate, later reading; the two sums
  \<open>t + durationDays\<close> and \<open>grantedAt + durationDays\<close> agree exactly when the readings do.
\<close>

theorem paid_grant_expiry:
  assumes "verification env = FetchJson r" and "success r" and "status r = Some ''captured''"
    and "currentUser env = Some uid" and "\<not> grantWriteFails env"
    and "payId \<noteq> []" and "ordId \<noteq> []" and "sig \<noteq> []"
    and "ls1 = paymentHandler opt pid payId ordId sig ls"
    and "timestampInRange (timestampNow env)"
  shows "(optionId opt = ''lifetime'' \<longrightarrow>
            entitlementWrites (connectionUnlockFlow env pid ls1 db)
              = [(connectionDocId uid pid,
                  \<lparr>userId = uid, providerId = pid, accessType = Some ''lifetime'',
                   grantedAt = timestampNow env, expiresAt = None, paymentId = Some payId,
                   reviewRequested = None\<rparr>)]
            \<and> connections (store (connectionUnlockFlow env pid ls1 db)) (connectionDocId uid pid)
              = Some \<lparr>userId = uid, providerId = pid, accessType = Some ''lifetime'',
                      grantedAt = timestampNow env, expiresAt = None, paymentId = Some payId,
                      reviewRequested = None\<rparr>)
       \<and> (optionId opt \<noteq> ''lifetime'' \<and> durationDays opt = Some d \<and> d > 0
          \<and> localOffset (zone env) (dateNow env + utcOffset (zone env) (dateNow env) + d * 86400000)
              = utcOffset (zone env) (dateNow env)
          \<and> timestampInRange (dateNow env + d * 86400000) \<longrightarrow>
            entitlementWrites (connectionUnlockFlow env pid ls1 db)
              = [(connectionDocId uid pid,
                  \<lparr>userId = uid, providerId = pid, accessType = Some (optionId opt),
                   grantedAt = timestampNow env, expiresAt = Some (dateNow env + d * 86400000),
                   paymentId = Some payId, reviewRequested = None\<rparr>)]
            \<and> connections (store (connectionUnlockFlow env pid ls1 db)) (connectionDocId uid pid)
              = Some \<lparr>userId = uid, providerId = pid, accessType = Some (optionId opt),
                      grantedAt = timestampNow env, expiresAt = Some (dateNow env + d * 86400000),
                      paymentId = Some payId, reviewRequested = None\<rparr>
            \<and> (dateNow env + d * 86400000 = timestampNow env + d * 86400000)
                = (dateNow env = timestampNow env))"
proof -
  have keys: "ls1 ''isProcessingConnectionUnlock'' = Some ''true''"
    "truthy (ls1 ''razorpayPaymentId'')" "truthy (ls1 ''razorpayOrderId'')"
    "truthy (ls1 ''razorpaySignature'')"
    using assms(6-9) by (simp_all add: paymentHandler_def truthy_def)
  have w: "\<And>c. paidConnectionData uid pid ls1 (zone env) (dateNow env) (timestampNow env) = Some c
      \<Longrightarrow> entitlementWrites (connectionUnlockFlow env pid ls1 db) = [(connectionDocId uid pid, c)]
        \<and> connections (store (connectionUnlockFlow env pid ls1 db)) (connectionDocId uid pid) = Some c"
  proof -
    fix c
    assume "paidConnectionData uid pid ls1 (zone env) (dateNow env) (timestampNow env) = Some c"
    then have "entitlementWrites (connectionUnlockFlow env pid ls1 db) = [(connectionDocId uid pid, c)]"
      using assms(1-5) keys by (simp add: unlock_writes)
    then show "entitlementWrites (connectionUnlockFlow env pid ls1 db) = [(connectionDocId uid pid, c)]
        \<and> connections (store (connectionUnlockFlow env pid ls1 db)) (connectionDocId uid pid) = Some c"
      by (simp add: unlock_store [of env pid ls1 db] setDoc_lookup)
  qed
  have g: "timestampFromMillis (timestampNow env) = Some (timestampNow env)"
    using assms(10) by (simp add: timestampFromMillis_def)
  have L: "optionId opt = ''lifetime'' \<longrightarrow>
       paidConnectionData uid pid ls1 (zone env) (dateNow env) (timestampNow env)
       = Some \<lparr>userId = uid, providerId = pid, accessType = Some ''lifetime'',
                grantedAt = timestampNow env, expiresAt = None, paymentId = Some payId,
                reviewRequested = None\<rparr>"
    using assms(9) g by (simp add: paid_record_after_checkout)
  have T: "optionId opt \<noteq> ''lifetime'' \<and> durationDays opt = Some d \<and> d > 0
          \<and> localOffset (zone env) (dateNow env + utcOffset (zone env) (dateNow env) + d * 86400000)
              = utcOffset (zone env) (dateNow env)
          \<and> timestampInRange (dateNow env + d * 86400000) \<longrightarrow>
       paidConnectionData uid pid ls1 (zone env) (dateNow env) (timestampNow env)
       = Some \<lparr>userId = uid, providerId = pid, accessType = Some (optionId opt),
                grantedAt = timestampNow env, expiresAt = Some (dateNow env + d * 86400000),
                paymentId = Some payId, reviewRequested = None\<rparr>"
    using assms(9) g
    by (auto simp: paid_record_after_checkout storedDurationDays_def addDays_unchanged
        timestampFromMillis_def)
  show ?thesis using w L T by auto
qed

theorem paid_grant_expiry_witness:
  "verification paidEnv = FetchJson captured \<and> success captured
   \<and> status captured = Some ''captured'' \<and> currentUser paidEnv = Some ''u1''
   \<and> \<not> grantWriteFails paidEnv \<and> timestampInRange (timestampNow paidEnv)
   \<and> optionId sevenDaysOption \<noteq> ''lifetime'' \<and> durationDays sevenDaysOption = Some 7
   \<and> localOffset (zone paidEnv) (dateNow paidEnv + utcOffset (zone paidEnv) (dateNow paidEnv)
        + 7 * 86400000) = utcOffset (zone paidEnv) (dateNow paidEnv)
   \<and> timestampInRange (dateNow paidEnv + 7 * 86400000)
   \<and> entitlementWrites (connectionUnlockFlow paidEnv ''p1'' afterCheckout emptyDb)
       = [(''u1_p1'',
           \<lparr>userId = ''u1'', providerId = ''p1'', accessType = Some ''sevenDays'',
            grantedAt = 1001, expiresAt = Some 604801000, paymentId = Some ''pay_1'',
            reviewRequested = None\<rparr>)]
   \<and> optionId lifetimeOption = ''lifetime''
   \<and> entitlementWrites (connectionUnlockFlow paidEnv ''p1''
         (paymentHandler lifetimeOption ''p1'' ''pay_2'' ''order_2'' ''sig_2'' Map.empty) emptyDb)
       = [(''u1_p1'',
           \<lparr>userId = ''u1'', providerId = ''p1'', accessType = Some ''lifetime'',
            grantedAt = 1001, expiresAt = None, paymentId = Some ''pay_2'',
            reviewRequested = None\<rparr>)]"
proof -
  have o: "optionId sevenDaysOption \<noteq> ''lifetime''" "durationDays sevenDaysOption = Some 7"
    "optionId sevenDaysOption = ''sevenDays''"
    by (simp_all add: sevenDaysOption_def)
  have lo: "optionId lifetimeOption = ''lifetime''" by (simp add: lifetimeOption_def)
  have ne: "''pay_1'' \<noteq> []" "''order_1'' \<noteq> []" "''sig_1'' \<noteq> []"
    "''pay_2'' \<noteq> []" "''order_2'' \<noteq> []" "''sig_2'' \<noteq> []" by simp_all
  have rg: "timestampInRange (timestampNow paidEnv)" "timestampInRange (dateNow paidEnv + 7 * 86400000)"
    by (simp_all add: paidEnv_simps timestampInRange_def)
  have zo: "localOffset (zone paidEnv) (dateNow paidEnv + utcOffset (zone paidEnv) (dateNow paidEnv)
        + 7 * 86400000) = utcOffset (zone paidEnv) (dateNow paidEnv)"
    by (simp add: paidEnv_simps kolkata_offsets)
  note t1 = paid_grant_expiry [OF paidEnv_simps(2) paidEnv_simps(7) paidEnv_simps(8) paidEnv_simps(1)
      paidEnv_simps(3) ne(1) ne(2) ne(3) afterCheckout_def rg(1), where d = 7 and db = emptyDb]
  note t2 = paid_grant_expiry [OF paidEnv_simps(2) paidEnv_simps(7) paidEnv_simps(8) paidEnv_simps(1)
      paidEnv_simps(3) ne(4) ne(5) ne(6) refl rg(1), where opt = lifetimeOption and pid = "''p1''"
      and ls = Map.empty and d = 0 and db = emptyDb]
  have a: "entitlementWrites (connectionUnlockFlow paidEnv ''p1'' afterCheckout emptyDb)
       = [(connectionDocId ''u1'' ''p1'',
           \<lparr>userId = ''u1'', providerId = ''p1'', accessType = Some (optionId sevenDaysOption),
            grantedAt = timestampNow paidEnv, expiresAt = Some (dateNow paidEnv + 7 * 86400000),
            paymentId = Some ''pay_1'', reviewRequested = None\<rparr>)]"
    using t1 o rg zo by simp
  have b: "entitlementWrites (connectionUnlockFlow paidEnv ''p1''
         (paymentHandler lifetimeOption ''p1'' ''pay_2'' ''order_2'' ''sig_2'' Map.empty) emptyDb)
       = [(connectionDocId ''u1'' ''p1'',
           \<lparr>userId = ''u1'', providerId = ''p1'', accessType = Some ''lifetime'',
            grantedAt = timestampNow paidEnv, expiresAt = None, paymentId = Some ''pay_2'',
            reviewRequested = None\<rparr>)]"
    using t2 lo by simp
  show ?thesis using a b o lo rg zo paidEnv_simps by (simp add: connectionDocId_def)
qed

text \<open>
  C3. No entitlement is written unless the verification call returned success with status
  captured, or the free fallback was taken (fallback enabled and no paid tier enabled).
  The thank-you page writes only after a verification with \<open>success\<close> and status
  \<open>captured\<close>, and only with the three payment details present; the connect click writes
  only on the free-fallback branch; the tier dialog never writes, and a failed or
  dismissed checkout leaves \<^verbatim>\<open>localStorage\<close> untouched and does not navigate.
\<close>

theorem no_premature_grant:
  "(entitlementWrites (connectionUnlockFlow env pid ls db) \<noteq> []
      \<or> store (connectionUnlockFlow env pid ls db) \<noteq> db
    \<longrightarrow> (\<exists>r. verification env = FetchJson r \<and> success r \<and> status r = Some ''captured'')
        \<and> ls ''isProcessingConnectionUnlock'' = Some ''true''
        \<and> truthy (ls ''razorpayPaymentId'') \<and> truthy (ls ''razorpayOrderId'')
        \<and> truthy (ls ''razorpaySignature''))
   \<and> (entitlementWrites (handleConnectClick z cfg loading user pidC sf t1 t2 lsC dbC) \<noteq> []
        \<or> store (handleConnectClick z cfg loading user pidC sf t1 t2 lsC dbC) \<noteq> dbC
      \<longrightarrow> isFreeAccessFallbackEnabled cfg \<and> enabledPaidOptions cfg = [] \<and> user \<noteq> None)
   \<and> entitlementWrites (handleProceedToPayment sel userD pidD opts cfgD sl oc co lsD dbD) = []
   \<and> store (handleProceedToPayment sel userD pidD opts cfgD sl oc co lsD dbD) = dbD
   \<and> (co = PaymentFailed \<or> co = PaymentDismissed
      \<longrightarrow> storage (handleProceedToPayment sel userD pidD opts cfgD sl oc co lsD dbD) = lsD
        \<and> navigation (handleProceedToPayment sel userD pidD opts cfgD sl oc co lsD dbD) = [])"
proof -
  have A: "entitlementWrites (connectionUnlockFlow env pid ls db) \<noteq> []
      \<or> store (connectionUnlockFlow env pid ls db) \<noteq> db
    \<longrightarrow> (\<exists>r. verification env = FetchJson r \<and> success r \<and> status r = Some ''captured'')
        \<and> ls ''isProcessingConnectionUnlock'' = Some ''true''
        \<and> truthy (ls ''razorpayPaymentId'') \<and> truthy (ls ''razorpayOrderId'')
        \<and> truthy (ls ''razorpaySignature'')"
    by (auto simp: unlock_store unlock_writes split: list.splits if_splits)
  have B: "entitlementWrites (handleConnectClick z cfg loading user pidC sf t1 t2 lsC dbC) \<noteq> []
        \<or> store (handleConnectClick z cfg loading user pidC sf t1 t2 lsC dbC) \<noteq> dbC
      \<longrightarrow> isFreeAccessFallbackEnabled cfg \<and> enabledPaidOptions cfg = [] \<and> user \<noteq> None"
    by (auto simp: click_store click_writes split: list.splits if_splits)
  show ?thesis
    using A B dialog_no_write [of sel userD pidD opts cfgD sl oc co lsD dbD]
      dialog_not_completed [of co sel userD pidD opts cfgD sl oc lsD dbD]
    by blast
qed

theorem no_premature_grant_witness:
  "entitlementWrites (connectionUnlockFlow paidEnv ''p1'' afterCheckout emptyDb) \<noteq> []
   \<and> verification paidEnv = FetchJson captured \<and> success captured
   \<and> status captured = Some ''captured''
   \<and> truthy (afterCheckout ''razorpayPaymentId'')
   \<and> entitlementWrites (handleConnectClick kolkata freeOnlyConfig False (Some ''u1'') ''p1'' False 1000 1001
         Map.empty emptyDb) \<noteq> []
   \<and> isFreeAccessFallbackEnabled freeOnlyConfig \<and> enabledPaidOptions freeOnlyConfig = []
   \<and> storage (handleProceedToPayment (Some ''sevenDays'') (Some ''u1'') ''p1'' [sevenDaysOption]
         freeOnlyConfig True True PaymentDismissed Map.empty emptyDb) = Map.empty
   \<and> navigation (handleProceedToPayment (Some ''sevenDays'') (Some ''u1'') ''p1'' [sevenDaysOption]
         freeOnlyConfig True True PaymentDismissed Map.empty emptyDb) = []"
proof -
  have w1: "entitlementWrites (connectionUnlockFlow paidEnv ''p1'' afterCheckout emptyDb) \<noteq> []"
    by (simp add: example_paid_write)
  have w2: "entitlementWrites (handleConnectClick kolkata freeOnlyConfig False (Some ''u1'') ''p1'' False 1000 1001
         Map.empty emptyDb) \<noteq> []"
    by (simp add: example_free_write)
  show ?thesis
    using w1 w2 paidEnv_simps
      no_premature_grant [where env = paidEnv and pid = "''p1''" and ls = afterCheckout
        and db = emptyDb and z = kolkata and cfg = freeOnlyConfig and loading = False and user = "Some ''u1''"
        and pidC = "''p1''" and sf = False and ?t1.0 = 1000 and ?t2.0 = 1001 and lsC = Map.empty
        and dbC = emptyDb and sel = "Some ''sevenDays''" and userD = "Some ''u1''"
        and pidD = "''p1''" and opts = "[sevenDaysOption]" and cfgD = freeOnlyConfig
        and sl = True and oc = True and co = PaymentDismissed and lsD = Map.empty
        and dbD = emptyDb]
    by simp
qed

text \<open>
  C7. A grant for a key that already holds a record replaces the record: the document at
  the key is exactly the record a first-time grant with the same inputs produces,
  whatever the store held before, on the paid path and on the free path alike, and it has
  no \<open>reviewRequested\<close> field, which every reader takes as not requested.
\<close>

theorem regrant_overwrites:
  "(entitlementWrites (connectionUnlockFlow env pid ls db) = [(k, c)] \<longrightarrow>
      connections (store (connectionUnlockFlow env pid ls db)) k = Some c
      \<and> reviewRequested c = None
      \<and> entitlementWrites (connectionUnlockFlow env pid ls db') = [(k, c)]
      \<and> connections (store (connectionUnlockFlow env pid ls db')) k = Some c)
   \<and> (entitlementWrites (handleConnectClick z cfg loading user pid sf t1 t2 ls db) = [(k', c')] \<longrightarrow>
      connections (store (handleConnectClick z cfg loading user pid sf t1 t2 ls db)) k' = Some c'
      \<and> reviewRequested c' = None
      \<and> entitlementWrites (handleConnectClick z cfg loading user pid sf t1 t2 ls db') = [(k', c')]
      \<and> connections (store (handleConnectClick z cfg loading user pid sf t1 t2 ls db')) k' = Some c')"
proof (intro conjI impI)
  assume a: "entitlementWrites (connectionUnlockFlow env pid ls db) = [(k, c)]"
  then have b: "entitlementWrites (connectionUnlockFlow env pid ls db') = [(k, c)]"
    by (simp add: unlock_writes split: if_splits)
  show "connections (store (connectionUnlockFlow env pid ls db)) k = Some c"
    using a by (simp add: unlock_store [of env pid ls db] setDoc_lookup)
  show "reviewRequested c = None"
    using a by (auto simp: unlock_writes split: if_splits option.splits dest: paid_reviewRequested)
  show "entitlementWrites (connectionUnlockFlow env pid ls db') = [(k, c)]" by (rule b)
  show "connections (store (connectionUnlockFlow env pid ls db')) k = Some c"
    using b by (simp add: unlock_store [of env pid ls db'] setDoc_lookup)
next
  assume a: "entitlementWrites (handleConnectClick z cfg loading user pid sf t1 t2 ls db) = [(k', c')]"
  then have b: "entitlementWrites (handleConnectClick z cfg loading user pid sf t1 t2 ls db') = [(k', c')]"
    by (simp add: click_writes free_writes split: if_splits)
  show "connections (store (handleConnectClick z cfg loading user pid sf t1 t2 ls db)) k' = Some c'"
    using a by (simp add: click_store [of z cfg loading user pid sf t1 t2 ls db] setDoc_lookup)
  show "reviewRequested c' = None"
    using a
    by (auto simp: click_writes free_writes split: if_splits option.splits dest: free_reviewRequested)
  show "entitlementWrites (handleConnectClick z cfg loading user pid sf t1 t2 ls db') = [(k', c')]"
    by (rule b)
  show "connections (store (handleConnectClick z cfg loading user pid sf t1 t2 ls db')) k' = Some c'"
    using b by (simp add: click_store [of z cfg loading user pid sf t1 t2 ls db'] setDoc_lookup)
qed

theorem regrant_overwrites_witness:
  "connections expiredReviewed ''u1_p1'' = Some ((sevenDayConnection 0)\<lparr>reviewRequested := Some True\<rparr>)
   \<and> entitlementWrites (connectionUnlockFlow paidEnv ''p1'' afterCheckout expiredReviewed)
       = [(''u1_p1'', sevenDayGrant)]
   \<and> connections (store (connectionUnlockFlow paidEnv ''p1'' afterCheckout expiredReviewed)) ''u1_p1''
       = Some sevenDayGrant
   \<and> connections (store (connectionUnlockFlow paidEnv ''p1'' afterCheckout emptyDb)) ''u1_p1''
       = Some sevenDayGrant
   \<and> reviewRequested sevenDayGrant = None
   \<and> connections (store (handleConnectClick kolkata freeOnlyConfig False (Some ''u1'') ''p1'' False 1000 1001
         afterCheckout expiredReviewed)) ''u1_p1'' = Some freeGrant
   \<and> connections (store (handleConnectClick kolkata freeOnlyConfig False (Some ''u1'') ''p1'' False 1000 1001
         afterCheckout emptyDb)) ''u1_p1'' = Some freeGrant
   \<and> reviewRequested freeGrant = None"
proof -
  have old: "connections expiredReviewed ''u1_p1''
             = Some ((sevenDayConnection 0)\<lparr>reviewRequested := Some True\<rparr>)"
    by (simp add: expiredReviewed_def dbWith_def sevenDayConnection_def connectionDocId_def)
  have w1: "entitlementWrites (connectionUnlockFlow paidEnv ''p1'' afterCheckout expiredReviewed)
       = [(''u1_p1'', sevenDayGrant)]"
    by (rule example_paid_write)
  have w2: "entitlementWrites (handleConnectClick kolkata freeOnlyConfig False (Some ''u1'') ''p1'' False 1000 1001
         afterCheckout expiredReviewed) = [(''u1_p1'', freeGrant)]"
    by (rule example_free_write)
  show ?thesis
    using old w1 w2
      regrant_overwrites [where env = paidEnv and pid = "''p1''" and ls = afterCheckout
        and db = expiredReviewed and k = "''u1_p1''" and c = sevenDayGrant and db' = emptyDb
        and z = kolkata and cfg = freeOnlyConfig and loading = False and user = "Some ''u1''"
        and sf = False and ?t1.0 = 1000 and ?t2.0 = 1001 and k' = "''u1_p1''" and c' = freeGrant]
    by simp
qed




text \<open>
  C9 as stated fails: on the thank-you page a verified payment without a signed-in user
  skips the grant silently. Nothing is written, but there is no redirect to sign-in and
  no error either: the page reports the payment as verified and clears the payment
  details from \<^verbatim>\<open>localStorage\<close>.
\<close>

theorem signed_out_payment_is_silent:
  "connectionUnlockFlow signedOutEnv ''p1'' afterCheckout emptyDb
     = \<lparr>store = emptyDb, storage = clearLocalStorageItems afterCheckout, entitlementWrites = [],
        navigation = [], toasts = [''Payment Verified''], modalOpened = False,
        paymentVerified = True\<rparr>"
  by (simp add: connectionUnlockFlow_def afterCheckout_keys truthy_def signedOutEnv_def paidEnv_def
      captured_def noEffects_def)

text \<open>
  C9, amended. Without a signed-in user no granting operation writes an entitlement.
  The connect click redirects to sign-in with the way back
  (\<^verbatim>\<open>/provider/<id>?connect=true\<close>); the free unlock returns without any effect; the tier
  dialog only shows a toast; the thank-you page never redirects to sign-in (its only
  navigation is back to the provider page after a failed verification).
\<close>

text \<open>
  C9, amended. Without a signed-in user no granting operation writes an entitlement.
  The connect click redirects to sign-in with the way back
  (\<^verbatim>\<open>/provider/<id>?connect=true\<close>); the free unlock returns without any effect; the tier
  dialog only shows a toast; the thank-you page never redirects to sign-in (its only
  navigation is back to the provider page after a failed verification).
\<close>

theorem signed_out_never_grants:
  assumes "currentUser env = None"
  shows "entitlementWrites (connectionUnlockFlow env pid ls db) = []
       \<and> store (connectionUnlockFlow env pid ls db) = db
       \<and> (\<forall>n \<in> set (navigation (connectionUnlockFlow env pid ls db)).
             n = RouterPush (''/provider/'' @ pid))
       \<and> handleConnectClick z cfg loading None pid sf t1 t2 ls db
           = (noEffects ls db)\<lparr>navigation := [AuthRedirect (''/provider/'' @ pid @ ''?connect=true'')]\<rparr>
       \<and> handleFreeAccessUnlock z cfg None pid sf t1 t2 ls db = noEffects ls db
       \<and> handleProceedToPayment sel None pid opts cfg sl oc co ls db
           = (noEffects ls db)\<lparr>toasts := [if truthy sel then ''Error'' else ''Please select an option.'']\<rparr>"
proof -
  have w: "entitlementWrites (connectionUnlockFlow env pid ls db) = []"
    using assms by (simp add: unlock_writes)
  have s: "store (connectionUnlockFlow env pid ls db) = db"
    using w by (simp add: unlock_store [of env pid ls db])
  have n: "\<forall>n \<in> set (navigation (connectionUnlockFlow env pid ls db)).
             n = RouterPush (''/provider/'' @ pid)"
    using assms by (auto simp: connectionUnlockFlow_def Let_def split: fetchOutcome.splits if_splits)
  have c: "handleConnectClick z cfg loading None pid sf t1 t2 ls db
           = (noEffects ls db)\<lparr>navigation := [AuthRedirect (''/provider/'' @ pid @ ''?connect=true'')]\<rparr>"
    by (simp add: handleConnectClick_def)
  have f: "handleFreeAccessUnlock z cfg None pid sf t1 t2 ls db = noEffects ls db"
    by (simp add: handleFreeAccessUnlock_def)
  have d: "handleProceedToPayment sel None pid opts cfg sl oc co ls db
           = (noEffects ls db)\<lparr>toasts := [if truthy sel then ''Error'' else ''Please select an option.'']\<rparr>"
    by (simp add: handleProceedToPayment_def)
  show ?thesis using w s n c f d by blast
qed

theorem signed_out_never_grants_witness:
  "currentUser signedOutEnv = None
   \<and> entitlementWrites (connectionUnlockFlow signedOutEnv ''p1'' afterCheckout emptyDb) = []
   \<and> store (connectionUnlockFlow signedOutEnv ''p1'' afterCheckout emptyDb) = emptyDb
   \<and> navigation (handleConnectClick kolkata freeOnlyConfig False None ''p1'' False 1000 1001 afterCheckout emptyDb)
       = [AuthRedirect ''/provider/p1?connect=true'']
   \<and> entitlementWrites (handleConnectClick kolkata freeOnlyConfig False None ''p1'' False 1000 1001 afterCheckout emptyDb)
       = []"
proof -
  have h: "currentUser signedOutEnv = None" by (simp add: signedOutEnv_def)
  show ?thesis
    using h signed_out_never_grants [OF h, where pid = "''p1''" and ls = afterCheckout and db = emptyDb
        and z = kolkata
        and cfg = freeOnlyConfig and loading = False and sf = False and ?t1.0 = 1000
        and ?t2.0 = 1001]
    by simp
qed

end
